theory Spec2Isabelle
  imports Main "HOL-Library.AList" "HOL-Library.Char_ord" "HOL-Library.List_Lexorder"
begin

section \<open>Data model of \<open>fgread/read.py\<close>\<close>

subsection \<open>Paths\<close>

text \<open>
  A \<open>pathlib\<close> path is its list of parts: \<open>Path("/a/b")\<close> has the parts
  \<open>['/', 'a', 'b']\<close>, a relative path has no anchor part. Paths compare as their
  lists of parts do (lexicographically, strings by code point).

  A Python string is kept as its UTF-8 encoding, a list of bytes: two strings are equal
  exactly when their encodings are, and the order of the encodings byte by byte is the
  order of the strings code point by code point.
\<close>

type_synonym purepath = "string list"

fun split_on :: "char \<Rightarrow> string \<Rightarrow> string list" where
  "split_on sep [] = [[]]"
| "split_on sep (c # cs) =
     (if c = sep then [] # split_on sep cs
      else (case split_on sep cs of [] \<Rightarrow> [[c]] | w # ws \<Rightarrow> (c # w) # ws))"

text \<open>\<open>Path(s)\<close> for a string on a POSIX system: one or more than two leading
  slashes give the root \<open>/\<close>, exactly two give \<open>//\<close>; empty components and
  \<open>.\<close> are dropped.\<close>

definition parse_path :: "string \<Rightarrow> purepath" where
  "parse_path s =
     (let lead = length (takeWhile (\<lambda>c. c = CHR ''/'') s);
          rel = dropWhile (\<lambda>c. c = CHR ''/'') s;
          root = (if lead = 0 then [] else if lead = 2 then [''//''] else [''/''])
      in root @ filter (\<lambda>x. x \<noteq> [] \<and> x \<noteq> ''.'') (split_on (CHR ''/'') rel))"

definition is_absolute :: "purepath \<Rightarrow> bool" where
  "is_absolute p = (case p of [] \<Rightarrow> False | x # _ \<Rightarrow> x = ''/'' \<or> x = ''//'')"

text \<open>\<open>p / q\<close>: an anchored right operand replaces the left one.\<close>

definition joinpath :: "purepath \<Rightarrow> purepath \<Rightarrow> purepath" where
  "joinpath p q = (if is_absolute q then q else p @ q)"

subsection \<open>Cell values, exceptions, log events\<close>

text \<open>
  The values a metadata field or a table cell can hold: the scalars of JSON, the
  \<open>Path\<close> that \<open>ds_info\<close> stores under \<open>path\<close>, \<open>NaN\<close> for a field a row
  does not have, and \<open>Compound\<close> for a JSON array or object (unhashable in Python).
  Numbers are integers here; the dtype coercions of pandas are not modelled.
\<close>

datatype val = Str string | Num int | Bool bool | Null | PathV purepath | NaN | Compound

text \<open>An f-string is kept as its pieces: literal text and the interpolated values.
  Line breaks inside a message are written as spaces, and the rule of \<open>=\<close> signs that
  ends the second log message of \<open>load_data\<close> is left out.\<close>

datatype part = Text string | Interp val | InterpNat nat | InterpKeys "string list"

datatype exn = KeyError | ValueError | NotImplementedError | AssertionError | NameError
  | TypeError | FileNotFoundError | IsADirectoryError | NotADirectoryError | JSONDecodeError
  | ReaderFailure

datatype error = Error exn "part list"

subsection \<open>Data frames\<close>

text \<open>
  A pandas \<open>DataFrame\<close>: the column labels, the index labels and the rows, each row
  aligned with the columns.
\<close>

record frame =
  columns :: "string list"
  index :: "nat list"
  rows :: "val list list"

datatype event = Warning "part list" | Info "part list" | Displayed frame

type_synonym 'a result = "(error + 'a) \<times> event list"

definition empty_frame :: frame where
  "empty_frame = \<lparr>columns = [], index = [], rows = []\<rparr>"

definition cell :: "string list \<Rightarrow> val list \<Rightarrow> string \<Rightarrow> val" where
  "cell cols row c = (case map_of (zip cols row) c of Some v \<Rightarrow> v | None \<Rightarrow> NaN)"

definition dict_get :: "(string \<times> val) list \<Rightarrow> string \<Rightarrow> val" where
  "dict_get d c = (case map_of d c of Some v \<Rightarrow> v | None \<Rightarrow> NaN)"

text \<open>
  \<open>df.append(d, ignore_index=True)\<close> for a dict \<open>d\<close>: the columns are the old ones
  followed by the keys of \<open>d\<close> that are new (here in the order of \<open>d\<close>; the order
  among the new labels is the library's choice and no statement below depends on it), the
  fields a row does not have are \<open>NaN\<close>, and the index is renumbered from 0.
\<close>

definition df_append :: "frame \<Rightarrow> (string \<times> val) list \<Rightarrow> frame" where
  "df_append df d =
     (let cols = columns df @ filter (\<lambda>k. k \<notin> set (columns df)) (remdups (map fst d))
      in \<lparr>columns = cols,
          index = [0 ..< Suc (length (rows df))],
          rows = map (\<lambda>r. map (cell (columns df) r) cols) (rows df) @ [map (dict_get d) cols]\<rparr>)"

text \<open>\<open>df[cols]\<close> for a list of labels that are columns of \<open>df\<close>.\<close>

definition select_columns :: "frame \<Rightarrow> string list \<Rightarrow> frame" where
  "select_columns df cols =
     \<lparr>columns = cols, index = index df, rows = map (\<lambda>r. map (cell (columns df) r) cols) (rows df)\<rparr>"

text \<open>\<open>df.loc[mask]\<close> for a boolean mask computed row by row: the rows kept carry
  their index labels with them.\<close>

definition df_filter :: "(val list \<Rightarrow> bool) \<Rightarrow> frame \<Rightarrow> frame" where
  "df_filter keep df =
     \<lparr>columns = columns df,
      index = map fst (filter (\<lambda>(l, r). keep r) (zip (index df) (rows df))),
      rows = map snd (filter (\<lambda>(l, r). keep r) (zip (index df) (rows df)))\<rparr>"

definition reset_index :: "frame \<Rightarrow> frame" where
  "reset_index df = df\<lparr>index := [0 ..< length (rows df)]\<rparr>"

text \<open>\<open>df.loc[label, c]\<close>: a \<open>KeyError\<close> when the column or the index label is
  absent. It is only applied to frames with distinct index labels.\<close>

definition loc :: "frame \<Rightarrow> nat \<Rightarrow> string \<Rightarrow> error + val" where
  "loc df label c =
     (if c \<notin> set (columns df) then Inl (Error KeyError [Interp (Str c)])
      else (case map_of (zip (index df) (rows df)) label of
              None \<Rightarrow> Inl (Error KeyError [InterpNat label])
            | Some r \<Rightarrow> Inr (cell (columns df) r c)))"

text \<open>\<open>df.loc[label].to_dict()\<close>.\<close>

definition loc_row_dict :: "frame \<Rightarrow> nat \<Rightarrow> error + (string \<times> val) list" where
  "loc_row_dict df label =
     (case map_of (zip (index df) (rows df)) label of
        None \<Rightarrow> Inl (Error KeyError [InterpNat label])
      | Some r \<Rightarrow> Inr (zip (columns df) r))"

subsection \<open>The file system\<close>

text \<open>
  What a path resolves to: nothing, a file with its content, or a directory with the
  names of its entries (in the order the system lists them). A metadata file's content
  is what \<open>json.load\<close> makes of it: a decoding error, a value that is not an object,
  or a dict (an association list with the keys in file order).
\<close>

datatype content = NotJSON | NonObject | Object "(string \<times> val) list"

datatype node = File content | Dir "string list"

type_synonym filesystem = "purepath \<Rightarrow> node option"

definition is_dir :: "filesystem \<Rightarrow> purepath \<Rightarrow> bool" where
  "is_dir fs p = (case fs p of Some (Dir _) \<Rightarrow> True | _ \<Rightarrow> False)"

subsection \<open>What the module takes from outside\<close>

text \<open>
  \<open>DOCSURL\<close> and \<open>DS_URL_PREFIX\<close> come from the package's \<open>__init__\<close>;
  \<open>display_defined\<close> says whether the name \<open>display\<close> resolves (\<open>read.py\<close>
  never imports it at module level; an IPython shell puts it among the builtins);
  \<open>can_display\<close> says whether importing \<open>IPython.display\<close> and rendering the frame
  succeed; \<open>pystr\<close> is Python's \<open>str()\<close> on a cell value; \<open>astype_int32\<close> is the
  pandas cast of one cell; \<open>decimal_digit\<close> says which code points the class \<open>\d\<close>
  of the \<open>re\<close> module matches in a string pattern (the Unicode category Nd of the
  interpreter's character database).
\<close>

record env =
  DOCSURL :: string
  DS_URL_PREFIX :: string
  display_defined :: bool
  can_display :: "frame \<Rightarrow> bool"
  pystr :: "val \<Rightarrow> string"
  astype_int32 :: "val \<Rightarrow> error + val"
  decimal_digit :: "int \<Rightarrow> bool"

section \<open>Dataset Directory Scanner: \<open>get_ds_paths\<close>\<close>

text \<open>
  One code point off the front of a UTF-8 string, as the strict decoder reads it: no
  overlong form, no surrogate, nothing above \<open>0x10FFFF\<close>. Where the bytes do not
  decode, Python's file names hold an escape character there, which is no digit.
\<close>

definition continuation :: "char \<Rightarrow> bool" where
  "continuation c = (0x80 \<le> (of_char c :: int) \<and> (of_char c :: int) < 0xC0)"

definition utf8_next :: "string \<Rightarrow> (int \<times> string) option" where
  "utf8_next s =
     (case s of
        [] \<Rightarrow> None
      | b0 # r \<Rightarrow>
          (let n0 = (of_char b0 :: int)
           in if n0 < 0x80 then Some (n0, r)
              else if 0xC2 \<le> n0 \<and> n0 < 0xE0 then
                (case r of
                   b1 # r1 \<Rightarrow>
                     if continuation b1 then Some ((n0 - 0xC0) * 64 + (of_char b1 - 0x80), r1)
                     else None
                 | _ \<Rightarrow> None)
              else if 0xE0 \<le> n0 \<and> n0 < 0xF0 then
                (case r of
                   b1 # b2 # r2 \<Rightarrow>
                     (let cp = (n0 - 0xE0) * 4096 + (of_char b1 - 0x80) * 64 + (of_char b2 - 0x80)
                      in if continuation b1 \<and> continuation b2 \<and> 0x800 \<le> cp
                            \<and> (cp < 0xD800 \<or> 0xE000 \<le> cp)
                         then Some (cp, r2) else None)
                 | _ \<Rightarrow> None)
              else if 0xF0 \<le> n0 \<and> n0 < 0xF5 then
                (case r of
                   b1 # b2 # b3 # r3 \<Rightarrow>
                     (let cp = (n0 - 0xF0) * 262144 + (of_char b1 - 0x80) * 4096
                               + (of_char b2 - 0x80) * 64 + (of_char b3 - 0x80)
                      in if continuation b1 \<and> continuation b2 \<and> continuation b3
                            \<and> 0x10000 \<le> cp \<and> cp < 0x110000
                         then Some (cp, r3) else None)
                 | _ \<Rightarrow> None)
              else None))"

text \<open>\<open>\d{n}\<close> at the front of a string: what is left after \<open>n\<close> decimal digits.\<close>

fun match_digits :: "(int \<Rightarrow> bool) \<Rightarrow> nat \<Rightarrow> string \<Rightarrow> string option" where
  "match_digits digit 0 s = Some s"
| "match_digits digit (Suc n) s =
     (case utf8_next s of
        None \<Rightarrow> None
      | Some (cp, rest) \<Rightarrow> if digit cp then match_digits digit n rest else None)"

text \<open>
  \<open>re.match(r"^dataset_\d{4}$", name)\<close>: \<open>\d\<close> matches every decimal digit of
  Unicode, and \<open>$\<close> matches at the end of the string and also just before a
  newline that ends it.
\<close>

definition re_match_dataset :: "env \<Rightarrow> string \<Rightarrow> bool" where
  "re_match_dataset env s =
     (take 8 s = ''dataset_'' \<and>
      (case match_digits (decimal_digit env) 4 (drop 8 s) of
         None \<Rightarrow> False
       | Some tail \<Rightarrow> tail = [] \<or> tail = [CHR 0x0A]))"

text \<open>\<open>subdir.name\<close> of a child path is its last part.\<close>

definition path_name :: "purepath \<Rightarrow> string" where
  "path_name p = (if p = [] \<or> (length p = 1 \<and> is_absolute p) then [] else last p)"

definition iterdir :: "purepath \<Rightarrow> string list \<Rightarrow> purepath list" where
  "iterdir data_dir names = map (\<lambda>n. data_dir @ [n]) names"

text \<open>Lines 263 to 276. An \<open>assert\<close> is taken as executed (Python without \<open>-O\<close>).\<close>

definition get_ds_paths :: "env \<Rightarrow> filesystem \<Rightarrow> purepath \<Rightarrow> purepath list result" where
  "get_ds_paths env fs data_dir =
     (case fs data_dir of
        None \<Rightarrow> (Inr [], [Warning [Text ''There are no datasets attached to this analysis.'']])
      | Some (File _) \<Rightarrow> (Inl (Error NotADirectoryError []), [])
      | Some (Dir names) \<Rightarrow>
          (let paths = filter (\<lambda>subdir. is_dir fs subdir \<and> re_match_dataset env (path_name subdir))
                         (sort (iterdir data_dir names))
           in if paths \<noteq> [] then (Inr paths, [])
              else (Inl (Error AssertionError [Text ''There is no data available in this analysis.'']), [])))"

text \<open>The children of the root that the comprehension of lines 270 to 274 keeps, in
  the order of the listing.\<close>

definition matching_dirs :: "env \<Rightarrow> filesystem \<Rightarrow> purepath \<Rightarrow> string list \<Rightarrow> purepath list" where
  "matching_dirs env fs data_dir names =
     filter (\<lambda>subdir. is_dir fs subdir \<and> re_match_dataset env (path_name subdir)) (iterdir data_dir names)"

section \<open>Metadata Aggregator: \<open>ds_info\<close>\<close>

text \<open>Lines 73 to 76: open and decode the sidecar, set \<open>path\<close>, pop \<open>schemaVersion\<close>.\<close>

definition read_info :: "filesystem \<Rightarrow> purepath \<Rightarrow> error + (string \<times> val) list" where
  "read_info fs ds_path =
     (case fs (joinpath ds_path [''dataset_info.json'']) of
        None \<Rightarrow> Inl (Error FileNotFoundError [])
      | Some (Dir _) \<Rightarrow> Inl (Error IsADirectoryError [])
      | Some (File NotJSON) \<Rightarrow> Inl (Error JSONDecodeError [])
      | Some (File NonObject) \<Rightarrow> Inl (Error TypeError [])
      | Some (File (Object d)) \<Rightarrow>
          Inr (AList.delete ''schemaVersion'' (AList.update ''path'' (PathV ds_path) d)))"

text \<open>The loop of lines 72 to 77.\<close>

fun aggregate :: "filesystem \<Rightarrow> purepath list \<Rightarrow> frame \<Rightarrow> error + frame" where
  "aggregate fs [] ds_df = Inr ds_df"
| "aggregate fs (ds_path # rest) ds_df =
     (case read_info fs ds_path of
        Inl e \<Rightarrow> Inl e
      | Inr info_df \<Rightarrow> aggregate fs rest (df_append ds_df info_df))"

definition sort_order :: "string list" where
  "sort_order = [''title'', ''id'', ''format'', ''organism'', ''tissue'',
                 ''numberOfCells'', ''numberOfGenes'', ''path'', ''file'']"

text \<open>Line 93: \<open>[col_names.remove(name) for name in sort_order]\<close>; \<open>list.remove\<close>
  raises \<open>ValueError\<close> when the element is not in the list.\<close>

fun remove_each :: "string list \<Rightarrow> string list \<Rightarrow> error + string list" where
  "remove_each [] col_names = Inr col_names"
| "remove_each (name # names) col_names =
     (if name \<in> set col_names then remove_each names (remove1 name col_names)
      else Inl (Error ValueError [Text ''list.remove(x): x not in list'']))"

text \<open>Lines 91 to 94, on the list of column labels.\<close>

definition sort_colnames :: "string list \<Rightarrow> error + string list" where
  "sort_colnames col_names =
     (let col_names_sorted = filter (\<lambda>name. name \<in> set col_names) sort_order
      in case remove_each sort_order col_names of
           Inl e \<Rightarrow> Inl e
         | Inr rest \<Rightarrow> Inr (col_names_sorted @ rest))"

text \<open>Sequencing: an exception ends the computation, the log accumulates.\<close>

definition then_do :: "'a result \<Rightarrow> ('a \<Rightarrow> 'b result) \<Rightarrow> 'b result" where
  "then_do m f =
     (case m of
        (Inl e, lg) \<Rightarrow> (Inl e, lg)
      | (Inr x, lg) \<Rightarrow> (case f x of (r, lg2) \<Rightarrow> (r, lg @ lg2)))"

definition lift :: "error + 'a \<Rightarrow> 'a result" where
  "lift r = (r, [])"

definition emit :: "event list \<Rightarrow> unit result" where
  "emit evs = (Inr (), evs)"

section \<open>Dataset Selector: \<open>select_ds_id\<close>\<close>

text \<open>The mask \<open>(df["id"] == ds) | (df["title"] == ds)\<close> on one row: a cell equals
  the string \<open>ds\<close> only if it is that string.\<close>

definition ds_mask :: "string \<Rightarrow> string list \<Rightarrow> val list \<Rightarrow> bool" where
  "ds_mask ds cols r = (cell cols r ''id'' = Str ds \<or> cell cols r ''title'' = Str ds)"

definition selection_error :: "nat \<Rightarrow> error" where
  "selection_error len_df =
     Error KeyError [Text ''Your selection matches '', InterpNat len_df,
                     Text '' datasets. Please make sure to select exactly one.'']"

text \<open>
  Lines 238 to 247, on frame values. \<open>df["id"]\<close> raises \<open>KeyError\<close> for a label
  that is no column. With more than one match the code calls \<open>display\<close>, a name the
  module does not define: where it does not resolve, the call raises \<open>NameError\<close>.
\<close>

definition select_ds_id :: "env \<Rightarrow> string \<Rightarrow> frame \<Rightarrow> frame result" where
  "select_ds_id env ds df =
     (if ''id'' \<notin> set (columns df) then (Inl (Error KeyError [Interp (Str ''id'')]), [])
      else if ''title'' \<notin> set (columns df) then (Inl (Error KeyError [Interp (Str ''title'')]), [])
      else
        (let single_df = reset_index (df_filter (ds_mask ds (columns df)) df);
             len_df = length (rows single_df)
         in if len_df = 1 then (Inr single_df, [])
            else if len_df > 1 then
              (if display_defined env then (Inl (selection_error len_df), [Displayed single_df])
               else (Inl (Error NameError [Interp (Str ''display'')]), []))
            else (Inl (selection_error len_df), [])))"

subsection \<open>The same function on an object store\<close>

text \<open>
  Frames are objects: the store holds them by address. \<open>df.loc[mask]\<close>,
  \<open>.reset_index(drop=True)\<close> and \<open>.copy()\<close> each make a new object; the function
  returns the address of the last one.
\<close>

type_synonym heap = "frame list"

definition alloc :: "frame \<Rightarrow> heap \<Rightarrow> nat \<times> heap" where
  "alloc f h = (length h, h @ [f])"

definition select_ds_id_obj :: "env \<Rightarrow> string \<Rightarrow> nat \<Rightarrow> heap \<Rightarrow> ((error + nat) \<times> event list) \<times> heap" where
  "select_ds_id_obj env ds df h =
     (if ''id'' \<notin> set (columns (h ! df)) then ((Inl (Error KeyError [Interp (Str ''id'')]), []), h)
      else if ''title'' \<notin> set (columns (h ! df)) then ((Inl (Error KeyError [Interp (Str ''title'')]), []), h)
      else
        (let (masked, h1) = alloc (df_filter (ds_mask ds (columns (h ! df))) (h ! df)) h;
             (single_df, h2) = alloc (reset_index (h1 ! masked)) h1;
             len_df = length (rows (h2 ! single_df))
         in if len_df = 1 then (let (copy, h3) = alloc (h2 ! single_df) h2 in ((Inr copy, []), h3))
            else if len_df > 1 then
              (if display_defined env then ((Inl (selection_error len_df), [Displayed (h2 ! single_df)]), h2)
               else ((Inl (Error NameError [Interp (Str ''display'')]), []), h2))
            else ((Inl (selection_error len_df), []), h2)))"

section \<open>\<open>ds_info\<close>, lines 97 to 150\<close>

definition add_url :: "env \<Rightarrow> val \<Rightarrow> val \<Rightarrow> val" where
  \<open>add_url env title ident =
     Str (''<a href="'' @ DS_URL_PREFIX env @ pystr env ident @ ''" target="_blank">''
          @ pystr env title @ ''</a>'')\<close>

text \<open>The \<open>title\<close> cell of every row replaced by its link (both \<open>title\<close> and
  \<open>id\<close> are columns once line 93 has passed).\<close>

definition url_titles :: "env \<Rightarrow> frame \<Rightarrow> frame" where
  "url_titles env df =
     df\<lparr>rows := map (\<lambda>r. map (\<lambda>(c, v). if c = ''title''
                                        then add_url env (cell (columns df) r ''title'') (cell (columns df) r ''id'')
                                        else v)
                              (zip (columns df) r))
                  (rows df)\<rparr>"

text \<open>\<open>disp_pretty_df\<close>: every failure inside is caught and becomes a warning. The
  event records the frame handed over, before transposition and rendering.\<close>

definition disp_pretty_df :: "env \<Rightarrow> frame \<Rightarrow> event list" where
  "disp_pretty_df env df =
     (if can_display env df then [Displayed df]
      else [Warning [Text ''IPython not available. Pretty printing only works in Jupyter Notebooks.'']])"

definition drop_labels :: "string list \<Rightarrow> frame \<Rightarrow> frame" where
  "drop_labels labels df = select_columns df (filter (\<lambda>c. c \<notin> set labels) (columns df))"

fun mapM :: "('a \<Rightarrow> error + 'b) \<Rightarrow> 'a list \<Rightarrow> error + 'b list" where
  "mapM f [] = Inr []"
| "mapM f (x # xs) =
     (case f x of
        Inl e \<Rightarrow> Inl e
      | Inr y \<Rightarrow> (case mapM f xs of Inl e \<Rightarrow> Inl e | Inr ys \<Rightarrow> Inr (y # ys)))"

definition astype_column :: "env \<Rightarrow> string \<Rightarrow> frame \<Rightarrow> error + frame" where
  "astype_column env c df =
     (if c \<notin> set (columns df) then Inl (Error KeyError [Interp (Str c)])
      else (case mapM (astype_int32 env) (map (\<lambda>r. cell (columns df) r c) (rows df)) of
              Inl e \<Rightarrow> Inl e
            | Inr vs \<Rightarrow>
                Inr (df\<lparr>rows := map (\<lambda>(r, v). map (\<lambda>(k, x). if k = c then v else x) (zip (columns df) r))
                                    (zip (rows df) vs)\<rparr>)))"

text \<open>\<open>if ds:\<close> holds for a string that is neither \<open>None\<close> nor empty.\<close>

definition truthy :: "string option \<Rightarrow> string option" where
  "truthy ds = (case ds of None \<Rightarrow> None | Some s \<Rightarrow> if s = [] then None else Some s)"

text \<open>Lines 117 to 123 and 128 to 147: what \<open>pretty\<close> does.\<close>

definition show_pretty :: "env \<Rightarrow> string option \<Rightarrow> frame \<Rightarrow> unit result" where
  "show_pretty env ds ds_df =
     (case truthy ds of
        Some s \<Rightarrow>
          then_do (select_ds_id env s ds_df)
            (\<lambda>pretty_df. emit (disp_pretty_df env (url_titles env pretty_df)))
      | None \<Rightarrow>
          then_do (lift (astype_column env ''numberOfCells''
                     (url_titles env (drop_labels [''description'', ''license'', ''preprocessing'',
                                                   ''citation'', ''webLink''] ds_df))))
            (\<lambda>df1. then_do (lift (astype_column env ''numberOfGenes'' df1))
               (\<lambda>pretty_df. emit (disp_pretty_df env pretty_df))))"

text \<open>Lines 125 to 126 and 149 to 150: what is returned; \<open>None\<close> is Python's
  \<open>None\<close>, returned when the function falls off its end.\<close>

definition give_output :: "env \<Rightarrow> string option \<Rightarrow> bool \<Rightarrow> frame \<Rightarrow> frame option result" where
  "give_output env ds output ds_df =
     (if output then
        (case truthy ds of
           Some s \<Rightarrow> then_do (select_ds_id env s ds_df) (\<lambda>df. (Inr (Some df), []))
         | None \<Rightarrow> (Inr (Some ds_df), []))
      else (Inr None, []))"

definition ds_info :: "env \<Rightarrow> filesystem \<Rightarrow> string option \<Rightarrow> bool \<Rightarrow> bool \<Rightarrow> purepath \<Rightarrow> frame option result" where
  \<open>ds_info env fs ds pretty output data_dir =
     then_do (emit (if \<not> pretty \<and> \<not> output
                    then [Warning [Text ''You have set "pretty" and "output" to false. Hence, this function will do/return nothing.'']]
                    else []))
       (\<lambda>_. then_do (get_ds_paths env fs data_dir)
          (\<lambda>ds_paths. then_do (lift (aggregate fs ds_paths empty_frame))
             (\<lambda>ds_df0. then_do (lift (sort_colnames (columns ds_df0)))
                (\<lambda>col_names_sorted.
                   then_do (if pretty then show_pretty env ds (select_columns ds_df0 col_names_sorted)
                            else (Inr (), []))
                     (\<lambda>_. give_output env ds output (select_columns ds_df0 col_names_sorted))))))\<close>

section \<open>Format Dispatcher / Loader: \<open>load_data\<close>\<close>

text \<open>
  An \<open>AnnData\<close> body: its shape, the per-row annotation table \<open>obs\<close> (columns of
  \<open>n_obs\<close> cells each) and the global annotations \<open>uns\<close>.
\<close>

datatype unsval = Metadata "(val \<times> (string \<times> val) list) list" | Opaque nat

record adata =
  n_obs :: nat
  n_vars :: nat
  obs :: "(string \<times> val list) list"
  uns :: "(string \<times> unsval) list"

text \<open>A reader maps a payload path to a body or fails with its own exception.\<close>

type_synonym reader = "purepath \<Rightarrow> error + adata"

type_synonym registry = "(string \<times> reader) list"

text \<open>The modules \<open>readers\<close> and \<open>readers_old\<close> are not part of this file; their
  functions are taken as given. The old readers take a \<open>DataSet\<close> object, of type \<open>'d\<close>.\<close>

record 'a readers_module =
  read_loom_to_anndata :: "'a \<Rightarrow> error + adata"
  read_seurat_to_anndata :: "'a \<Rightarrow> error + adata"
  read_anndata_to_anndata :: "'a \<Rightarrow> error + adata"
  read_10xhdf5_to_anndata :: "'a \<Rightarrow> error + adata"
  read_10xmtx_to_anndata :: "'a \<Rightarrow> error + adata"
  read_densetsv_to_anndata :: "'a \<Rightarrow> error + adata"
  read_densecsv_to_anndata :: "'a \<Rightarrow> error + adata"

definition registry_of :: "'a readers_module \<Rightarrow> (string \<times> ('a \<Rightarrow> error + adata)) list" where
  "registry_of m =
     [(''Loom'', read_loom_to_anndata m),
      (''Seurat Object'', read_seurat_to_anndata m),
      (''AnnData'', read_anndata_to_anndata m),
      (''10x (hdf5)'', read_10xhdf5_to_anndata m),
      (''10x (mtx)'', read_10xmtx_to_anndata m),
      (''tab-separated text'', read_densetsv_to_anndata m),
      (''comma-separated text'', read_densecsv_to_anndata m)]"

text \<open>The module's global dictionaries, lines 18 to 36.\<close>

record 'd globals =
  DEFAULT_READERS_OLD :: "(string \<times> ('d \<Rightarrow> error + adata)) list"
  DEFAULT_READERS :: registry

definition module_init :: "purepath readers_module \<Rightarrow> 'd readers_module \<Rightarrow> 'd globals" where
  "module_init readers readers_old =
     \<lparr>DEFAULT_READERS_OLD = registry_of readers_old, DEFAULT_READERS = registry_of readers\<rparr>"

text \<open>\<open>{**a, **b}\<close>: a new dict with the entries of \<open>a\<close>, those of \<open>b\<close> written
  over them in order.\<close>

definition dict_merge :: "('k \<times> 'v) list \<Rightarrow> ('k \<times> 'v) list \<Rightarrow> ('k \<times> 'v) list" where
  "dict_merge a b = fold (\<lambda>(k, v). AList.update k v) b a"

text \<open>\<open>Path(path) / file\<close>.\<close>

definition to_path :: "val \<Rightarrow> error + purepath" where
  "to_path v = (case v of PathV p \<Rightarrow> Inr p | Str s \<Rightarrow> Inr (parse_path s) | _ \<Rightarrow> Inl (Error TypeError []))"

definition payload_path :: "val \<Rightarrow> val \<Rightarrow> error + purepath" where
  "payload_path path file =
     (case to_path path of
        Inl e \<Rightarrow> Inl e
      | Inr p \<Rightarrow> (case file of
                    Str s \<Rightarrow> Inr (joinpath p (parse_path s))
                  | PathV q \<Rightarrow> Inr (joinpath p q)
                  | _ \<Rightarrow> Inl (Error TypeError [])))"

text \<open>Lines 196 to 197: the metadata under \<open>ds_metadata\<close> (a dict needs a hashable
  key) and the column \<open>fg_id\<close>, the scalar repeated for every row.\<close>

definition enrich :: "val \<Rightarrow> (string \<times> val) list \<Rightarrow> adata \<Rightarrow> error + adata" where
  "enrich ds_id metadata a =
     (if ds_id = Compound then Inl (Error TypeError [Text ''unhashable type''])
      else Inr (a\<lparr>uns := AList.update ''ds_metadata'' (Metadata [(ds_id, metadata)]) (uns a),
                  obs := AList.update ''fg_id'' (replicate (n_obs a) ds_id) (obs a)\<rparr>))"

text \<open>\<open>format in readers\<close> and \<open>readers[format]\<close>: the keys are strings.\<close>

definition find_reader :: "registry \<Rightarrow> val \<Rightarrow> error + reader option" where
  "find_reader readers format =
     (case format of
        Str f \<Rightarrow> Inr (map_of readers f)
      | Compound \<Rightarrow> Inl (Error TypeError [Text ''unhashable type''])
      | _ \<Rightarrow> Inr None)"

text \<open>Lines 185 to 220.\<close>

definition load_record :: "env \<Rightarrow> registry \<Rightarrow> frame \<Rightarrow> adata result" where
  \<open>load_record env readers single_df =
     then_do (lift (loc single_df 0 ''title'')) (\<lambda>title.
     then_do (lift (loc single_df 0 ''id'')) (\<lambda>ds_id.
     then_do (lift (loc single_df 0 ''format'')) (\<lambda>format.
     then_do (lift (loc single_df 0 ''path'')) (\<lambda>path.
     then_do (lift (loc single_df 0 ''file'')) (\<lambda>file.
     then_do (lift (find_reader readers format)) (\<lambda>found.
       case found of
         Some reader \<Rightarrow>
           then_do (emit [Info [Text ''Loading dataset "'', Interp title, Text ''" in format "'',
                                Interp format, Text ''" from directory "'', Interp path, Text ''"...'']]) (\<lambda>_.
           then_do (lift (payload_path path file)) (\<lambda>payload.
           then_do (lift (reader payload)) (\<lambda>a.
           then_do (lift (loc_row_dict single_df 0)) (\<lambda>metadata.
           then_do (lift (enrich ds_id metadata a)) (\<lambda>a'.
           then_do (emit [Info [Text ''Loaded dataset "'', Interp title, Text ''" with '',
                                InterpNat (n_obs a'), Text '' cells and '', InterpNat (n_vars a'),
                                Text '' genes.'']]) (\<lambda>_.
             (Inr a', [])))))))
       | None \<Rightarrow>
           if format = Str ''Other'' then
             (Inl (Error NotImplementedError
                [Text ''The format of the dataset "'', Interp title, Text ''" is "'', Interp format,
                 Text ''". Datasets with the "'', Interp format,
                 Text ''" format are unsupported by this module and have to be loaded manually. See '',
                 Text (DOCSURL env), Text '' for more information.'']), [])
           else if format = Str ''Not set'' then
             (Inl (Error ValueError
                [Text ''The format of the dataset "'', Interp title,
                 Text ''" was not defined. If you can modify the dataset please specify its format in its details page, otherwise ask the dataset owner to do that. See '',
                 Text (DOCSURL env), Text '' for more information.'']), [])
           else
             (Inl (Error KeyError
                [Text ''Unsupported format "'', Interp format, Text ''", use one of '',
                 InterpKeys (map fst readers),
                 Text '' or implement your own reading function. See '',
                 Text (DOCSURL env), Text '' for more information.'']), [])))))))\<close>

text \<open>Lines 177 to 183: the record to load.\<close>

definition resolve :: "env \<Rightarrow> filesystem \<Rightarrow> string option \<Rightarrow> purepath \<Rightarrow> frame result" where
  "resolve env fs ds data_dir =
     then_do (ds_info env fs None False True data_dir) (\<lambda>r.
       case r of
         None \<Rightarrow> (Inl (Error TypeError []), [])
       | Some df \<Rightarrow>
           (case truthy ds of
              Some s \<Rightarrow> select_ds_id env s df
            | None \<Rightarrow>
                if length (rows df) = 1 then (Inr df, [])
                else (Inl (Error AssertionError
                        [Text ''There is more than one dataset available. Please select one by its ID or title.'']), [])))"

text \<open>\<open>load_data\<close> reads the module's globals and leaves them as they are; they are
  returned with the result.\<close>

definition load_data :: "env \<Rightarrow> 'd globals \<Rightarrow> filesystem \<Rightarrow> string option \<Rightarrow> purepath \<Rightarrow> registry
    \<Rightarrow> adata result \<times> 'd globals" where
  "load_data env g fs ds data_dir additional_readers =
     (let readers = dict_merge (DEFAULT_READERS g) additional_readers
      in (then_do (resolve env fs ds data_dir) (load_record env readers), g))"

section \<open>Concrete inputs\<close>

text \<open>Line 38.\<close>

definition DATA_DIR :: purepath where
  "DATA_DIR = parse_path ''/fastgenomics/data''"

text \<open>The decimal digits (category Nd) of Unicode 14.0: 66 runs of ten code points,
  each given by its first one.\<close>

definition nd_blocks :: "int list" where
  "nd_blocks =
     [0x30, 0x660, 0x6F0, 0x7C0, 0x966, 0x9E6, 0xA66, 0xAE6, 0xB66, 0xBE6, 0xC66, 0xCE6, 0xD66,
      0xDE6, 0xE50, 0xED0, 0xF20, 0x1040, 0x1090, 0x17E0, 0x1810, 0x1946, 0x19D0, 0x1A80, 0x1A90,
      0x1B50, 0x1BB0, 0x1C40, 0x1C50, 0xA620, 0xA8D0, 0xA900, 0xA9D0, 0xA9F0, 0xAA50, 0xABF0,
      0xFF10, 0x104A0, 0x10D30, 0x11066, 0x110F0, 0x11136, 0x111D0, 0x112F0, 0x11450, 0x114D0,
      0x11650, 0x116C0, 0x11730, 0x118E0, 0x11950, 0x11C50, 0x11D50, 0x11DA0, 0x16A60, 0x16AC0,
      0x16B50, 0x1D7CE, 0x1D7D8, 0x1D7E2, 0x1D7EC, 0x1D7F6, 0x1E140, 0x1E2F0, 0x1E950, 0x1FBF0]"

definition unicode_nd :: "int \<Rightarrow> bool" where
  "unicode_nd cp = list_ex (\<lambda>b. b \<le> cp \<and> cp < b + 10) nd_blocks"

text \<open>A plain Python process: \<open>display\<close> is not defined and IPython is absent.\<close>

definition plain_env :: env where
  "plain_env =
     \<lparr>DOCSURL = ''https://docs.example'', DS_URL_PREFIX = ''https://ds.example/'',
      display_defined = False, can_display = (\<lambda>_. False),
      pystr = (\<lambda>v. case v of Str s \<Rightarrow> s | _ \<Rightarrow> ''?''),
      astype_int32 = (\<lambda>v. case v of Num n \<Rightarrow> Inr (Num n) | _ \<Rightarrow> Inl (Error ValueError [])),
      decimal_digit = unicode_nd\<rparr>"

text \<open>A notebook kernel: \<open>display\<close> is a builtin and rendering works.\<close>

definition notebook_env :: env where
  "notebook_env = plain_env\<lparr>display_defined := True, can_display := (\<lambda>_. True)\<rparr>"

text \<open>Readers that record which of them ran (in \<open>n_vars\<close>) and on which path (in
  the column \<open>src\<close>).\<close>

definition probe :: "nat \<Rightarrow> reader" where
  "probe k p = Inr \<lparr>n_obs = 3, n_vars = k, obs = [(''src'', replicate 3 (PathV p))], uns = []\<rparr>"

definition probe_readers :: "purepath readers_module" where
  "probe_readers =
     \<lparr>read_loom_to_anndata = probe 1, read_seurat_to_anndata = probe 2,
      read_anndata_to_anndata = probe 3, read_10xhdf5_to_anndata = probe 4,
      read_10xmtx_to_anndata = probe 5, read_densetsv_to_anndata = probe 6,
      read_densecsv_to_anndata = probe 7\<rparr>"

definition failing_readers :: "unit readers_module" where
  "failing_readers =
     \<lparr>read_loom_to_anndata = (\<lambda>_. Inl (Error ReaderFailure [])),
      read_seurat_to_anndata = (\<lambda>_. Inl (Error ReaderFailure [])),
      read_anndata_to_anndata = (\<lambda>_. Inl (Error ReaderFailure [])),
      read_10xhdf5_to_anndata = (\<lambda>_. Inl (Error ReaderFailure [])),
      read_10xmtx_to_anndata = (\<lambda>_. Inl (Error ReaderFailure [])),
      read_densetsv_to_anndata = (\<lambda>_. Inl (Error ReaderFailure [])),
      read_densecsv_to_anndata = (\<lambda>_. Inl (Error ReaderFailure []))\<rparr>"

definition probe_globals :: "unit globals" where
  "probe_globals = module_init probe_readers failing_readers"

text \<open>A metadata file with every priority field.\<close>

definition sidecar :: "string \<Rightarrow> string \<Rightarrow> string \<Rightarrow> node" where
  "sidecar i t f =
     File (Object [(''schemaVersion'', Str ''1.0''), (''id'', Str i), (''title'', Str t),
                   (''format'', Str f), (''organism'', Str ''Homo sapiens''), (''tissue'', Str ''Blood''),
                   (''numberOfCells'', Num 3), (''numberOfGenes'', Num 2),
                   (''file'', Str ''data.csv''), (''license'', Str ''MIT'')])"

text \<open>A root with four datasets, listed out of order among entries that do not count.\<close>

definition fs_four :: filesystem where
  "fs_four = map_of
     [([''/'', ''fastgenomics'', ''data''],
         Dir [''dataset_0003'', ''dataset_0002'', ''notes.txt'', ''dataset_0001'', ''dataset_12'', ''dataset_0004'']),
      ([''/'', ''fastgenomics'', ''data'', ''dataset_0001''], Dir [''dataset_info.json'', ''data.csv'']),
      ([''/'', ''fastgenomics'', ''data'', ''dataset_0002''], Dir [''dataset_info.json'']),
      ([''/'', ''fastgenomics'', ''data'', ''dataset_0003''], Dir [''dataset_info.json'']),
      ([''/'', ''fastgenomics'', ''data'', ''dataset_0004''], Dir [''dataset_info.json'']),
      ([''/'', ''fastgenomics'', ''data'', ''dataset_12''], Dir []),
      ([''/'', ''fastgenomics'', ''data'', ''notes.txt''], File NotJSON),
      ([''/'', ''fastgenomics'', ''data'', ''dataset_0001'', ''dataset_info.json''],
         sidecar ''a1'' ''Demo'' ''comma-separated text''),
      ([''/'', ''fastgenomics'', ''data'', ''dataset_0002'', ''dataset_info.json''],
         sidecar ''b2'' ''Second'' ''Other''),
      ([''/'', ''fastgenomics'', ''data'', ''dataset_0003'', ''dataset_info.json''],
         sidecar ''c3'' ''Third'' ''Not set''),
      ([''/'', ''fastgenomics'', ''data'', ''dataset_0004'', ''dataset_info.json''],
         sidecar ''d4'' ''Fourth'' ''BadFormat'')]"

text \<open>The root of the specification's first scenario: one dataset whose metadata has
  the four required fields only.\<close>

definition fs_demo :: filesystem where
  "fs_demo = map_of
     [([''/'', ''fastgenomics'', ''data''], Dir [''dataset_0001'']),
      ([''/'', ''fastgenomics'', ''data'', ''dataset_0001''], Dir [''dataset_info.json'', ''data.csv'']),
      ([''/'', ''fastgenomics'', ''data'', ''dataset_0001'', ''dataset_info.json''],
         File (Object [(''id'', Str ''a1''), (''title'', Str ''Demo''),
                       (''format'', Str ''comma-separated text''), (''file'', Str ''data.csv'')]))]"

text \<open>A dataset directory without its metadata file; a root with no entry; no root.\<close>

definition fs_nosidecar :: filesystem where
  "fs_nosidecar = map_of
     [([''/'', ''fastgenomics'', ''data''], Dir [''dataset_0001'']),
      ([''/'', ''fastgenomics'', ''data'', ''dataset_0001''], Dir [''data.csv''])]"

text \<open>A root whose directories are named with an Arabic-Indic digit one
  (\<open>U+0661\<close>, the bytes \<open>D9 A1\<close>), with a newline at the end, and with three
  digits only.\<close>

definition fs_digits :: filesystem where
  "fs_digits = map_of
     [([''/'', ''fastgenomics'', ''data''],
         Dir [''dataset_000'' @ [CHR 0xD9, CHR 0xA1], ''dataset_0002'' @ [CHR 0x0A], ''dataset_001'']),
      ([''/'', ''fastgenomics'', ''data'', ''dataset_000'' @ [CHR 0xD9, CHR 0xA1]], Dir []),
      ([''/'', ''fastgenomics'', ''data'', ''dataset_0002'' @ [CHR 0x0A]], Dir []),
      ([''/'', ''fastgenomics'', ''data'', ''dataset_001''], Dir [])]"

definition fs_empty :: filesystem where
  "fs_empty = map_of [([''/'', ''fastgenomics'', ''data''], Dir [])]"

definition fs_none :: filesystem where
  "fs_none = (\<lambda>p. None)"

text \<open>A table in which two datasets share a title.\<close>

definition twins :: frame where
  "twins = \<lparr>columns = [''title'', ''id''], index = [0, 1, 2],
            rows = [[Str ''Twin'', Str ''t1''], [Str ''Solo'', Str ''s1''], [Str ''Twin'', Str ''t2'']]\<rparr>"

text \<open>The table of \<open>fs_four\<close>.\<close>

definition four_row :: "string \<Rightarrow> string \<Rightarrow> string \<Rightarrow> string \<Rightarrow> val list" where
  "four_row t i f d =
     [Str t, Str i, Str f, Str ''Homo sapiens'', Str ''Blood'', Num 3, Num 2,
      PathV [''/'', ''fastgenomics'', ''data'', d], Str ''data.csv'', Str ''MIT'']"

definition four_columns :: "string list" where
  "four_columns = [''title'', ''id'', ''format'', ''organism'', ''tissue'', ''numberOfCells'',
                   ''numberOfGenes'', ''path'', ''file'', ''license'']"

definition four_table :: frame where
  "four_table =
     \<lparr>columns = four_columns, index = [0, 1, 2, 3],
      rows = [four_row ''Demo'' ''a1'' ''comma-separated text'' ''dataset_0001'',
              four_row ''Second'' ''b2'' ''Other'' ''dataset_0002'',
              four_row ''Third'' ''c3'' ''Not set'' ''dataset_0003'',
              four_row ''Fourth'' ''d4'' ''BadFormat'' ''dataset_0004'']\<rparr>"

text \<open>One selected row of that table.\<close>

definition single_row :: "string \<Rightarrow> string \<Rightarrow> string \<Rightarrow> string \<Rightarrow> frame" where
  "single_row t i f d = \<lparr>columns = four_columns, index = [0], rows = [four_row t i f d]\<rparr>"

definition four_names :: "string list" where
  "four_names = [''dataset_0003'', ''dataset_0002'', ''notes.txt'', ''dataset_0001'', ''dataset_12'',
                 ''dataset_0004'']"

section \<open>Properties\<close>

subsection \<open>Sequencing and cells\<close>

lemma then_do_Inl: "then_do (Inl e, lg) f = (Inl e, lg)"
  by (simp add: then_do_def)

lemma then_do_Inr: "then_do (Inr x, lg) f = (fst (f x), lg @ snd (f x))"
  by (simp add: then_do_def split: prod.splits)

lemma then_do_eq_Inr:
  "then_do m f = (Inr y, lg) \<longleftrightarrow>
     (\<exists>x lg1 lg2. m = (Inr x, lg1) \<and> f x = (Inr y, lg2) \<and> lg = lg1 @ lg2)"
  by (cases m) (auto simp: then_do_def split: sum.splits prod.splits)

lemma cell_map: "c \<in> set cols \<Longrightarrow> cell cols (map f cols) c = f c"
  by (simp add: cell_def map_of_zip_map)

subsection \<open>The column order\<close>

lemma remove_each_missing:
  "name \<in> set names \<Longrightarrow> name \<notin> set col_names \<Longrightarrow>
   remove_each names col_names = Inl (Error ValueError [Text ''list.remove(x): x not in list''])"
proof (induction names arbitrary: col_names)
  case Nil
  then show ?case by simp
next
  case (Cons a names)
  show ?case
  proof (cases "a \<in> set col_names")
    case False
    then show ?thesis by simp
  next
    case True
    with Cons.prems have "name \<in> set names" by auto
    moreover from Cons.prems have "name \<notin> set (remove1 a col_names)"
      using notin_set_remove1 by fast
    ultimately show ?thesis using Cons.IH True by simp
  qed
qed

text \<open>With every priority column present the order is the priority list followed by
  the other columns as they were.\<close>

lemma remove_each_present:
  "distinct col_names \<Longrightarrow> distinct names \<Longrightarrow> set names \<subseteq> set col_names \<Longrightarrow>
   remove_each names col_names = Inr (filter (\<lambda>c. c \<notin> set names) col_names)"
proof (induction names arbitrary: col_names)
  case Nil
  then show ?case by simp
next
  case (Cons a names)
  have "remove1 a col_names = filter (\<lambda>c. c \<noteq> a) col_names"
    using Cons.prems(1) by (simp add: distinct_remove1_removeAll removeAll_filter_not_eq) metis
  moreover have "remove_each names (remove1 a col_names) =
      Inr (filter (\<lambda>c. c \<notin> set names) (remove1 a col_names))"
    using Cons.prems by (intro Cons.IH) auto
  ultimately show ?case using Cons.prems by (auto intro: filter_cong)
qed

lemma sort_colnames_all_present:
  assumes "distinct col_names" and "set sort_order \<subseteq> set col_names"
  shows "sort_colnames col_names = Inr (sort_order @ filter (\<lambda>c. c \<notin> set sort_order) col_names)"
proof -
  have "distinct sort_order" by (simp add: sort_order_def)
  then have "remove_each sort_order col_names = Inr (filter (\<lambda>c. c \<notin> set sort_order) col_names)"
    using assms by (intro remove_each_present)
  moreover have "filter (\<lambda>name. name \<in> set col_names) sort_order = sort_order"
    using assms(2) by (auto simp: filter_id_conv)
  ultimately show ?thesis by (simp add: sort_colnames_def)
qed

lemma sort_colnames_Inr_subset:
  assumes "sort_colnames col_names = Inr cs"
  shows "set sort_order \<subseteq> set col_names \<and> set sort_order \<subseteq> set cs"
proof -
  have sub: "set sort_order \<subseteq> set col_names"
  proof (rule ccontr)
    assume "\<not> ?thesis"
    then obtain n where "n \<in> set sort_order" "n \<notin> set col_names" by auto
    from remove_each_missing[OF this] assms show False
      by (simp add: sort_colnames_def)
  qed
  from assms obtain rest where "cs = filter (\<lambda>name. name \<in> set col_names) sort_order @ rest"
    by (auto simp: sort_colnames_def split: sum.splits)
  with sub show ?thesis by auto
qed

text \<open>
  C6. The specification wants, for every set of aggregated records, also for records
  without some priority field and for no record at all, the table's columns to be the
  priority columns that are present, in their order, followed by the others in the order
  they had. The code does not get there: as soon as one of the nine priority names is
  not a column of the aggregated frame, line 93 removes a name that is not in the list
  and \<open>ds_info\<close> ends with \<open>ValueError\<close>. (With all nine present the order is as
  wanted, see \<open>sort_colnames_all_present\<close>.)
\<close>

theorem ds_info_missing_priority_column_raises:
  "get_ds_paths env fs data_dir = (Inr ds_paths, lg) \<Longrightarrow>
   aggregate fs ds_paths empty_frame = Inr ds_df \<Longrightarrow>
   name \<in> set sort_order \<Longrightarrow> name \<notin> set (columns ds_df) \<Longrightarrow>
   fst (ds_info env fs ds pretty output data_dir) =
     Inl (Error ValueError [Text ''list.remove(x): x not in list''])"
  by (simp add: ds_info_def then_do_def emit_def lift_def sort_colnames_def remove_each_missing)

theorem ds_info_missing_priority_column_raises_witness:
  "get_ds_paths plain_env fs_demo DATA_DIR = (Inr [[''/'', ''fastgenomics'', ''data'', ''dataset_0001'']], []) \<and>
   aggregate fs_demo [[''/'', ''fastgenomics'', ''data'', ''dataset_0001'']] empty_frame =
     Inr \<lparr>columns = [''id'', ''title'', ''format'', ''file'', ''path''], index = [0],
          rows = [[Str ''a1'', Str ''Demo'', Str ''comma-separated text'', Str ''data.csv'',
                   PathV [''/'', ''fastgenomics'', ''data'', ''dataset_0001'']]]\<rparr> \<and>
   ''organism'' \<in> set sort_order \<and>
   ''organism'' \<notin> set [''id'', ''title'', ''format'', ''file'', ''path''] \<and>
   fst (ds_info plain_env fs_demo None False True DATA_DIR) =
     Inl (Error ValueError [Text ''list.remove(x): x not in list''])"
proof -
  have h1: "get_ds_paths plain_env fs_demo DATA_DIR = (Inr [[''/'', ''fastgenomics'', ''data'', ''dataset_0001'']], [])"
    by code_simp
  have h2: "aggregate fs_demo [[''/'', ''fastgenomics'', ''data'', ''dataset_0001'']] empty_frame =
     Inr \<lparr>columns = [''id'', ''title'', ''format'', ''file'', ''path''], index = [0],
          rows = [[Str ''a1'', Str ''Demo'', Str ''comma-separated text'', Str ''data.csv'',
                   PathV [''/'', ''fastgenomics'', ''data'', ''dataset_0001'']]]\<rparr>"
    by code_simp
  have h3: "''organism'' \<in> set sort_order" by (simp add: sort_order_def)
  have h4: "''organism'' \<notin> set (columns \<lparr>columns = [''id'', ''title'', ''format'', ''file'', ''path''],
          index = [0],
          rows = [[Str ''a1'', Str ''Demo'', Str ''comma-separated text'', Str ''data.csv'',
                   PathV [''/'', ''fastgenomics'', ''data'', ''dataset_0001'']]]\<rparr>)" by simp
  show ?thesis
    using h1 h2 h3 h4 ds_info_missing_priority_column_raises [OF h1 h2 h3 h4, of None False True]
    by simp
qed

subsection \<open>A root that does not exist\<close>

text \<open>
  C4. The specification wants \<open>ds_info\<close>, for a root that does not exist, to warn
  and to return an empty table without raising. The scanner does warn and returns no
  path; the aggregated frame then has no column, and line 93 ends the call with
  \<open>ValueError\<close>, whatever the other arguments are.
\<close>

theorem ds_info_missing_root_raises:
  \<open>fs data_dir = None \<Longrightarrow>
   ds_info env fs ds pretty output data_dir =
     (Inl (Error ValueError [Text ''list.remove(x): x not in list'']),
      (if \<not> pretty \<and> \<not> output
       then [Warning [Text ''You have set "pretty" and "output" to false. Hence, this function will do/return nothing.'']]
       else [])
      @ [Warning [Text ''There are no datasets attached to this analysis.'']])\<close>
  by (simp add: ds_info_def get_ds_paths_def then_do_def emit_def lift_def empty_frame_def
      sort_colnames_def sort_order_def)

theorem ds_info_missing_root_raises_witness:
  "fs_none DATA_DIR = None \<and>
   ds_info plain_env fs_none None False True DATA_DIR =
     (Inl (Error ValueError [Text ''list.remove(x): x not in list'']),
      [Warning [Text ''There are no datasets attached to this analysis.'']])"
proof -
  have h: "fs_none DATA_DIR = None" by (simp add: fs_none_def)
  show ?thesis
    using h ds_info_missing_root_raises [of fs_none DATA_DIR plain_env None False True]
    by simp
qed

subsection \<open>Scanning and listing\<close>

lemma read_info_path:
  assumes "read_info fs p = Inr d"
  shows "dict_get d ''path'' = PathV p \<and> ''path'' \<in> fst ` set d"
proof -
  from assms obtain d0 where d: "d = AList.delete ''schemaVersion'' (AList.update ''path'' (PathV p) d0)"
    by (auto simp: read_info_def split: option.splits node.splits content.splits)
  have m: "map_of d ''path'' = Some (PathV p)"
    by (simp add: d AList.delete_conv' AList.update_conv')
  then have "''path'' \<in> fst ` set d"
    by (metis map_of_eq_None_iff option.distinct(1))
  with m show ?thesis by (simp add: dict_get_def)
qed

lemma df_append_path:
  assumes "''path'' \<in> fst ` set d"
  shows "map (\<lambda>r. cell (columns (df_append df d)) r ''path'') (rows (df_append df d)) =
         map (\<lambda>r. cell (columns df) r ''path'') (rows df) @ [dict_get d ''path'']"
proof -
  define cs where "cs = columns df @ filter (\<lambda>k. k \<notin> set (columns df)) (remdups (map fst d))"
  have mem: "''path'' \<in> set cs" using assms by (auto simp: cs_def)
  have eq: "df_append df d =
      \<lparr>columns = cs, index = [0 ..< Suc (length (rows df))],
       rows = map (\<lambda>r. map (cell (columns df) r) cs) (rows df) @ [map (dict_get d) cs]\<rparr>"
    by (simp add: df_append_def cs_def Let_def)
  show ?thesis
    using mem by (simp add: eq cell_map comp_def)
qed

lemma aggregate_paths:
  "aggregate fs ps df0 = Inr df \<Longrightarrow>
   map (\<lambda>r. cell (columns df) r ''path'') (rows df) =
     map (\<lambda>r. cell (columns df0) r ''path'') (rows df0) @ map PathV ps"
proof (induction ps arbitrary: df0)
  case Nil
  then show ?case by simp
next
  case (Cons p ps)
  from Cons.prems obtain d where d: "read_info fs p = Inr d"
    and rest: "aggregate fs ps (df_append df0 d) = Inr df"
    by (auto split: sum.splits)
  from read_info_path[OF d] have "dict_get d ''path'' = PathV p" "''path'' \<in> fst ` set d"
    by simp_all
  with Cons.IH[OF rest] show ?case
    by (simp add: df_append_path)
qed

lemma select_columns_path:
  "''path'' \<in> set cs \<Longrightarrow>
   map (\<lambda>r. cell (columns (select_columns df cs)) r ''path'') (rows (select_columns df cs)) =
   map (\<lambda>r. cell (columns df) r ''path'') (rows df)"
  by (simp add: select_columns_def cell_map comp_def)

lemma get_ds_paths_Dir:
  "fs data_dir = Some (Dir names) \<Longrightarrow>
   get_ds_paths env fs data_dir =
     (if matching_dirs env fs data_dir names = []
      then (Inl (Error AssertionError [Text ''There is no data available in this analysis.'']), [])
      else (Inr (sort (matching_dirs env fs data_dir names)), []))"
proof -
  have nil: "sort xs = [] \<longleftrightarrow> xs = []" for xs :: "purepath list"
    by (metis length_sort length_0_conv)
  assume "fs data_dir = Some (Dir names)"
  then show ?thesis
    by (simp add: get_ds_paths_def matching_dirs_def Let_def filter_sort nil)
qed

lemma ds_info_table:
  assumes "ds_info env fs None pretty True data_dir = (Inr (Some df), lg)"
  shows "\<exists>ds_paths lg1 ds_df cs.
           get_ds_paths env fs data_dir = (Inr ds_paths, lg1) \<and>
           aggregate fs ds_paths empty_frame = Inr ds_df \<and>
           sort_colnames (columns ds_df) = Inr cs \<and>
           df = select_columns ds_df cs"
  using assms
  unfolding ds_info_def then_do_eq_Inr
  by (auto simp: lift_def give_output_def truthy_def)

text \<open>
  C5 (amended). For a root that is a directory: when no child passes the filter of lines
  270 to 274 (a directory whose name matches \<open>^dataset_\d{4}$\<close>), the scan fails with
  \<open>AssertionError\<close>; when some do, the scan returns them sorted, and whenever
  \<open>ds_info\<close> without an identifier returns a table, the table has one row per such
  directory, in that order, with \<open>path\<close> set to the directory.
\<close>

theorem scan_and_list:
  "fs data_dir = Some (Dir names) \<Longrightarrow>
   (matching_dirs env fs data_dir names = [] \<longrightarrow>
      get_ds_paths env fs data_dir =
        (Inl (Error AssertionError [Text ''There is no data available in this analysis.'']), [])) \<and>
   (matching_dirs env fs data_dir names \<noteq> [] \<longrightarrow>
      get_ds_paths env fs data_dir = (Inr (sort (matching_dirs env fs data_dir names)), []) \<and>
      sorted (sort (matching_dirs env fs data_dir names)) \<and>
      (\<forall>df lg. ds_info env fs None pretty True data_dir = (Inr (Some df), lg) \<longrightarrow>
         length (rows df) = length (matching_dirs env fs data_dir names) \<and>
         map (\<lambda>r. cell (columns df) r ''path'') (rows df) =
           map PathV (sort (matching_dirs env fs data_dir names))))"
proof -
  assume root: "fs data_dir = Some (Dir names)"
  let ?m = "matching_dirs env fs data_dir names"
  have scan: "get_ds_paths env fs data_dir =
     (if ?m = [] then (Inl (Error AssertionError [Text ''There is no data available in this analysis.'']), [])
      else (Inr (sort ?m), []))"
    using root by (rule get_ds_paths_Dir)
  have table: "length (rows df) = length ?m \<and>
      map (\<lambda>r. cell (columns df) r ''path'') (rows df) = map PathV (sort ?m)"
    if ne: "?m \<noteq> []" and ok: "ds_info env fs None pretty True data_dir = (Inr (Some df), lg)"
    for df lg
  proof -
    from ds_info_table[OF ok] obtain ds_paths lg1 ds_df cs where
      p: "get_ds_paths env fs data_dir = (Inr ds_paths, lg1)" and
      a: "aggregate fs ds_paths empty_frame = Inr ds_df" and
      s: "sort_colnames (columns ds_df) = Inr cs" and
      d: "df = select_columns ds_df cs"
      by blast
    from p scan ne have paths: "ds_paths = sort ?m" by simp
    have "''path'' \<in> set sort_order" by (simp add: sort_order_def)
    with sort_colnames_Inr_subset[OF s] have "''path'' \<in> set cs" by blast
    then have "map (\<lambda>r. cell (columns df) r ''path'') (rows df) =
        map (\<lambda>r. cell (columns ds_df) r ''path'') (rows ds_df)"
      unfolding d by (rule select_columns_path)
    also have "\<dots> = map PathV ds_paths"
      using aggregate_paths[OF a] by (simp add: empty_frame_def)
    finally have eq: "map (\<lambda>r. cell (columns df) r ''path'') (rows df) = map PathV (sort ?m)"
      by (simp add: paths)
    from arg_cong[OF eq, of length] have "length (rows df) = length ?m" by simp
    with eq show ?thesis by simp
  qed
  show ?thesis
    using scan table by (auto simp del: sort_key_simps)
qed

lemma ds_info_four:
  "ds_info plain_env fs_four None False True DATA_DIR = (Inr (Some four_table), [])"
  by code_simp

lemma matching_four:
  "matching_dirs plain_env fs_four DATA_DIR four_names =
     [[''/'', ''fastgenomics'', ''data'', ''dataset_0003''],
      [''/'', ''fastgenomics'', ''data'', ''dataset_0002''],
      [''/'', ''fastgenomics'', ''data'', ''dataset_0001''],
      [''/'', ''fastgenomics'', ''data'', ''dataset_0004'']]"
  by code_simp

lemma root_four: "fs_four DATA_DIR = Some (Dir four_names)"
  by code_simp

text \<open>What the pattern accepts and what it refuses: ASCII and other decimal digits,
  a newline at the end; not three digits, five digits, a letter, two newlines, a prefix
  or bytes that do not decode.\<close>

lemma re_match_dataset_examples:
  "re_match_dataset plain_env ''dataset_0001''"
  "re_match_dataset plain_env (''dataset_000'' @ [CHR 0xD9, CHR 0xA1])"
  "re_match_dataset plain_env (''dataset_0001'' @ [CHR 0x0A])"
  "\<not> re_match_dataset plain_env ''dataset_001''"
  "\<not> re_match_dataset plain_env ''dataset_00001''"
  "\<not> re_match_dataset plain_env ''dataset_00a1''"
  "\<not> re_match_dataset plain_env (''dataset_0001'' @ [CHR 0x0A, CHR 0x0A])"
  "\<not> re_match_dataset plain_env ''xdataset_0001''"
  "\<not> re_match_dataset plain_env (''dataset_000'' @ [CHR 0xD9])"
  "\<not> re_match_dataset plain_env (''dataset_000'' @ [CHR 0xC2, CHR 0xB2])"
  by code_simp+

lemma root_digits:
  "fs_digits DATA_DIR =
     Some (Dir [''dataset_000'' @ [CHR 0xD9, CHR 0xA1], ''dataset_0002'' @ [CHR 0x0A], ''dataset_001''])"
  by code_simp

lemma matching_digits:
  "matching_dirs plain_env fs_digits DATA_DIR
     [''dataset_000'' @ [CHR 0xD9, CHR 0xA1], ''dataset_0002'' @ [CHR 0x0A], ''dataset_001''] =
     [[''/'', ''fastgenomics'', ''data'', ''dataset_000'' @ [CHR 0xD9, CHR 0xA1]],
      [''/'', ''fastgenomics'', ''data'', ''dataset_0002'' @ [CHR 0x0A]]]"
  by code_simp

theorem scan_and_list_witness:
  "fs_digits DATA_DIR =
     Some (Dir [''dataset_000'' @ [CHR 0xD9, CHR 0xA1], ''dataset_0002'' @ [CHR 0x0A], ''dataset_001'']) \<and>
   get_ds_paths plain_env fs_digits DATA_DIR =
     (Inr [[''/'', ''fastgenomics'', ''data'', ''dataset_0002'' @ [CHR 0x0A]],
           [''/'', ''fastgenomics'', ''data'', ''dataset_000'' @ [CHR 0xD9, CHR 0xA1]]], []) \<and>
   fs_empty DATA_DIR = Some (Dir []) \<and> matching_dirs plain_env fs_empty DATA_DIR [] = [] \<and>
   get_ds_paths plain_env fs_empty DATA_DIR =
     (Inl (Error AssertionError [Text ''There is no data available in this analysis.'']), []) \<and>
   fs_four DATA_DIR = Some (Dir four_names) \<and> matching_dirs plain_env fs_four DATA_DIR four_names \<noteq> [] \<and>
   get_ds_paths plain_env fs_four DATA_DIR =
     (Inr [[''/'', ''fastgenomics'', ''data'', ''dataset_0001''],
           [''/'', ''fastgenomics'', ''data'', ''dataset_0002''],
           [''/'', ''fastgenomics'', ''data'', ''dataset_0003''],
           [''/'', ''fastgenomics'', ''data'', ''dataset_0004'']], []) \<and>
   ds_info plain_env fs_four None False True DATA_DIR = (Inr (Some four_table), []) \<and>
   length (rows four_table) = 4 \<and>
   map (\<lambda>r. cell (columns four_table) r ''path'') (rows four_table) =
     map PathV [[''/'', ''fastgenomics'', ''data'', ''dataset_0001''],
                [''/'', ''fastgenomics'', ''data'', ''dataset_0002''],
                [''/'', ''fastgenomics'', ''data'', ''dataset_0003''],
                [''/'', ''fastgenomics'', ''data'', ''dataset_0004'']]"
proof -
  have e1: "fs_empty DATA_DIR = Some (Dir [])" by code_simp
  have e2: "matching_dirs plain_env fs_empty DATA_DIR [] = []" by code_simp
  have f2: "matching_dirs plain_env fs_four DATA_DIR four_names \<noteq> []" by (simp add: matching_four)
  have srt: "sort (matching_dirs plain_env fs_four DATA_DIR four_names) =
     [[''/'', ''fastgenomics'', ''data'', ''dataset_0001''],
      [''/'', ''fastgenomics'', ''data'', ''dataset_0002''],
      [''/'', ''fastgenomics'', ''data'', ''dataset_0003''],
      [''/'', ''fastgenomics'', ''data'', ''dataset_0004'']]"
    by code_simp
  have d2: "matching_dirs plain_env fs_digits DATA_DIR
      [''dataset_000'' @ [CHR 0xD9, CHR 0xA1], ''dataset_0002'' @ [CHR 0x0A], ''dataset_001''] \<noteq> []"
    unfolding matching_digits by simp
  have dsrt: "sort (matching_dirs plain_env fs_digits DATA_DIR
      [''dataset_000'' @ [CHR 0xD9, CHR 0xA1], ''dataset_0002'' @ [CHR 0x0A], ''dataset_001'']) =
     [[''/'', ''fastgenomics'', ''data'', ''dataset_0002'' @ [CHR 0x0A]],
      [''/'', ''fastgenomics'', ''data'', ''dataset_000'' @ [CHR 0xD9, CHR 0xA1]]]"
    by code_simp
  from scan_and_list [of fs_digits DATA_DIR
      "[''dataset_000'' @ [CHR 0xD9, CHR 0xA1], ''dataset_0002'' @ [CHR 0x0A], ''dataset_001'']"
      plain_env False] root_digits d2
  have D: "get_ds_paths plain_env fs_digits DATA_DIR =
     (Inr [[''/'', ''fastgenomics'', ''data'', ''dataset_0002'' @ [CHR 0x0A]],
           [''/'', ''fastgenomics'', ''data'', ''dataset_000'' @ [CHR 0xD9, CHR 0xA1]]], [])"
    unfolding dsrt by blast
  from scan_and_list [of fs_empty DATA_DIR "[]" plain_env False] e1 e2
  have A: "get_ds_paths plain_env fs_empty DATA_DIR =
     (Inl (Error AssertionError [Text ''There is no data available in this analysis.'']), [])"
    by blast
  from scan_and_list [of fs_four DATA_DIR four_names plain_env False] root_four f2 ds_info_four
  have B: "get_ds_paths plain_env fs_four DATA_DIR = (Inr (sort (matching_dirs plain_env fs_four DATA_DIR four_names)), []) \<and>
     length (rows four_table) = length (matching_dirs plain_env fs_four DATA_DIR four_names) \<and>
     map (\<lambda>r. cell (columns four_table) r ''path'') (rows four_table) =
       map PathV (sort (matching_dirs plain_env fs_four DATA_DIR four_names))"
    by blast
  have rest: "fs_empty DATA_DIR = Some (Dir []) \<and> matching_dirs plain_env fs_empty DATA_DIR [] = [] \<and>
   get_ds_paths plain_env fs_empty DATA_DIR =
     (Inl (Error AssertionError [Text ''There is no data available in this analysis.'']), []) \<and>
   fs_four DATA_DIR = Some (Dir four_names) \<and> matching_dirs plain_env fs_four DATA_DIR four_names \<noteq> [] \<and>
   get_ds_paths plain_env fs_four DATA_DIR =
     (Inr [[''/'', ''fastgenomics'', ''data'', ''dataset_0001''],
           [''/'', ''fastgenomics'', ''data'', ''dataset_0002''],
           [''/'', ''fastgenomics'', ''data'', ''dataset_0003''],
           [''/'', ''fastgenomics'', ''data'', ''dataset_0004'']], []) \<and>
   ds_info plain_env fs_four None False True DATA_DIR = (Inr (Some four_table), []) \<and>
   length (rows four_table) = 4 \<and>
   map (\<lambda>r. cell (columns four_table) r ''path'') (rows four_table) =
     map PathV [[''/'', ''fastgenomics'', ''data'', ''dataset_0001''],
                [''/'', ''fastgenomics'', ''data'', ''dataset_0002''],
                [''/'', ''fastgenomics'', ''data'', ''dataset_0003''],
                [''/'', ''fastgenomics'', ''data'', ''dataset_0004'']]"
    using e1 e2 A root_four f2 B ds_info_four
    unfolding srt by (simp add: matching_four)
  from root_digits D rest show ?thesis by (intro conjI) (elim conjE, assumption)+
qed

text \<open>
  C5 as stated fails: a matching directory does not make \<open>ds_info\<close> return a row.
  Here the one dataset directory has no metadata file and the call ends with
  \<open>FileNotFoundError\<close>.
\<close>

theorem list_datasets_one_row_per_directory_counterexample:
  "fs_nosidecar DATA_DIR = Some (Dir [''dataset_0001'']) \<and>
   matching_dirs plain_env fs_nosidecar DATA_DIR [''dataset_0001''] =
     [[''/'', ''fastgenomics'', ''data'', ''dataset_0001'']] \<and>
   ds_info plain_env fs_nosidecar None False True DATA_DIR = (Inl (Error FileNotFoundError []), [])"
  by code_simp

subsection \<open>No output\<close>

text \<open>
  C10 (amended). With \<open>output\<close> false, \<open>ds_info\<close> never returns a table: if it
  returns, it returns \<open>None\<close>, whatever \<open>pretty\<close> is. With both flags false the
  first thing logged is the warning that the call will do and return nothing, also when
  the call raises afterwards.
\<close>

theorem ds_info_no_output:
  \<open>(\<forall>r. fst (ds_info env fs ds pretty False data_dir) = Inr r \<longrightarrow> r = None) \<and>
   (\<exists>rest. snd (ds_info env fs ds False False data_dir) =
      Warning [Text ''You have set "pretty" and "output" to false. Hence, this function will do/return nothing.'']
      # rest)\<close>
proof
  show "\<forall>r. fst (ds_info env fs ds pretty False data_dir) = Inr r \<longrightarrow> r = None"
  proof (intro allI impI)
    fix r assume "fst (ds_info env fs ds pretty False data_dir) = Inr r"
    then obtain lg where "ds_info env fs ds pretty False data_dir = (Inr r, lg)"
      by (metis prod.collapse)
    then show "r = None"
      unfolding ds_info_def then_do_eq_Inr
      by (auto simp: give_output_def)
  qed
next
  show \<open>\<exists>rest. snd (ds_info env fs ds False False data_dir) =
      Warning [Text ''You have set "pretty" and "output" to false. Hence, this function will do/return nothing.'']
      # rest\<close>
    unfolding ds_info_def
    by (simp add: then_do_def emit_def split: prod.splits sum.splits)
qed

theorem ds_info_no_output_witness:
  \<open>fst (ds_info plain_env fs_four None False False DATA_DIR) = Inr None \<and>
   snd (ds_info plain_env fs_four None False False DATA_DIR) =
     [Warning [Text ''You have set "pretty" and "output" to false. Hence, this function will do/return nothing.'']]\<close>
proof -
  have "case fst (ds_info plain_env fs_four None False False DATA_DIR) of Inl e \<Rightarrow> False | Inr r \<Rightarrow> True"
    by code_simp
  then have h: "\<exists>r. fst (ds_info plain_env fs_four None False False DATA_DIR) = Inr r"
    by (simp split: sum.splits)
  have l: "length (snd (ds_info plain_env fs_four None False False DATA_DIR)) = 1"
    by code_simp
  from ds_info_no_output [of plain_env fs_four None False DATA_DIR] h
  have "fst (ds_info plain_env fs_four None False False DATA_DIR) = Inr None" by auto
  moreover from ds_info_no_output [of plain_env fs_four None False DATA_DIR] l
  have \<open>snd (ds_info plain_env fs_four None False False DATA_DIR) =
     [Warning [Text ''You have set "pretty" and "output" to false. Hence, this function will do/return nothing.'']]\<close>
    by auto
  ultimately show ?thesis by simp
qed

text \<open>
  C10 as stated fails: with \<open>output\<close> false the call can raise instead of returning
  \<open>None\<close>, here for a root without dataset directories.
\<close>

theorem ds_info_no_output_counterexample:
  "ds_info plain_env fs_empty None True False DATA_DIR =
     (Inl (Error AssertionError [Text ''There is no data available in this analysis.'']), [])"
  by code_simp

subsection \<open>Selecting a dataset\<close>

lemma filter_zip_snd:
  "length ls = length rs \<Longrightarrow> map snd (filter (\<lambda>(l, r). P r) (zip ls rs)) = filter P rs"
  by (induction ls rs rule: list_induct2) auto

lemma selected_frame:
  assumes "length (index df) = length (rows df)"
  shows "reset_index (df_filter P df) =
         \<lparr>columns = columns df, index = [0 ..< length (filter P (rows df))], rows = filter P (rows df)\<rparr>"
  using assms by (simp add: reset_index_def df_filter_def filter_zip_snd)

lemma select_ds_id_cases:
  assumes "''id'' \<in> set (columns df)" and "''title'' \<in> set (columns df)"
    and "length (index df) = length (rows df)"
  shows "select_ds_id env ds df =
    (let matches = filter (ds_mask ds (columns df)) (rows df);
         single_df = \<lparr>columns = columns df, index = [0 ..< length matches], rows = matches\<rparr>
     in if length matches = 1 then (Inr single_df, [])
        else if length matches > 1 then
          (if display_defined env then (Inl (selection_error (length matches)), [Displayed single_df])
           else (Inl (Error NameError [Interp (Str ''display'')]), []))
        else (Inl (selection_error (length matches)), []))"
  using assms by (simp add: select_ds_id_def selected_frame Let_def)

text \<open>
  C3 (amended). On a table with the columns \<open>id\<close> and \<open>title\<close>: an identifier that
  matches no row makes \<open>select_ds_id\<close> raise \<open>KeyError\<close> with a message that
  reports zero matches (the identifier is not part of the message); an identifier that
  matches two or more rows, where \<open>display\<close> is defined, has the matching rows
  displayed (numbered from 0) and raises \<open>KeyError\<close> with a message that reports the
  number of matches.
\<close>

theorem select_errors:
  "''id'' \<in> set (columns df) \<Longrightarrow> ''title'' \<in> set (columns df) \<Longrightarrow>
   length (index df) = length (rows df) \<Longrightarrow>
   (filter (ds_mask ds (columns df)) (rows df) = [] \<longrightarrow>
      select_ds_id env ds df =
        (Inl (Error KeyError [Text ''Your selection matches '', InterpNat 0,
                              Text '' datasets. Please make sure to select exactly one.'']), [])) \<and>
   (2 \<le> length (filter (ds_mask ds (columns df)) (rows df)) \<and> display_defined env \<longrightarrow>
      select_ds_id env ds df =
        (Inl (Error KeyError [Text ''Your selection matches '',
                              InterpNat (length (filter (ds_mask ds (columns df)) (rows df))),
                              Text '' datasets. Please make sure to select exactly one.'']),
         [Displayed \<lparr>columns = columns df,
                      index = [0 ..< length (filter (ds_mask ds (columns df)) (rows df))],
                      rows = filter (ds_mask ds (columns df)) (rows df)\<rparr>]))"
  by (simp add: select_ds_id_cases Let_def selection_error_def)

theorem select_errors_witness:
  "''id'' \<in> set (columns twins) \<and> ''title'' \<in> set (columns twins) \<and>
   length (index twins) = length (rows twins) \<and>
   filter (ds_mask ''nope'' (columns twins)) (rows twins) = [] \<and>
   select_ds_id plain_env ''nope'' twins =
     (Inl (Error KeyError [Text ''Your selection matches '', InterpNat 0,
                           Text '' datasets. Please make sure to select exactly one.'']), []) \<and>
   2 \<le> length (filter (ds_mask ''Twin'' (columns twins)) (rows twins)) \<and> display_defined notebook_env \<and>
   select_ds_id notebook_env ''Twin'' twins =
     (Inl (Error KeyError [Text ''Your selection matches '', InterpNat 2,
                           Text '' datasets. Please make sure to select exactly one.'']),
      [Displayed \<lparr>columns = [''title'', ''id''], index = [0, 1],
                   rows = [[Str ''Twin'', Str ''t1''], [Str ''Twin'', Str ''t2'']]\<rparr>])"
proof -
  have c1: "''id'' \<in> set (columns twins)" and c2: "''title'' \<in> set (columns twins)"
    and wf: "length (index twins) = length (rows twins)"
    by (simp_all add: twins_def)
  have none: "filter (ds_mask ''nope'' (columns twins)) (rows twins) = []" by code_simp
  have two: "filter (ds_mask ''Twin'' (columns twins)) (rows twins) =
      [[Str ''Twin'', Str ''t1''], [Str ''Twin'', Str ''t2'']]" by code_simp
  have cols: "columns twins = [''title'', ''id'']" by (simp add: twins_def)
  have nb: "display_defined notebook_env" by (simp add: notebook_env_def)
  from select_errors [OF c1 c2 wf, of "''nope''" plain_env] none
  have A: "select_ds_id plain_env ''nope'' twins =
     (Inl (Error KeyError [Text ''Your selection matches '', InterpNat 0,
                           Text '' datasets. Please make sure to select exactly one.'']), [])"
    by blast
  from select_errors [OF c1 c2 wf, of "''Twin''" notebook_env] two nb
  have B: "select_ds_id notebook_env ''Twin'' twins =
     (Inl (Error KeyError [Text ''Your selection matches '', InterpNat 2,
                           Text '' datasets. Please make sure to select exactly one.'']),
      [Displayed \<lparr>columns = [''title'', ''id''], index = [0, 1],
                   rows = [[Str ''Twin'', Str ''t1''], [Str ''Twin'', Str ''t2'']]\<rparr>])"
    by (simp add: cols upt_rec)
  show ?thesis using c1 c2 wf none two nb A B by simp
qed

text \<open>
  C3 as stated fails: the error for an identifier without a match does not name the
  identifier (two different identifiers give the very same error), and in a process
  where \<open>display\<close> is not defined two matches end in \<open>NameError\<close>.
\<close>

theorem select_not_found_counterexample:
  "select_ds_id plain_env ''nope'' twins =
     (Inl (Error KeyError [Text ''Your selection matches '', InterpNat 0,
                           Text '' datasets. Please make sure to select exactly one.'']), []) \<and>
   select_ds_id plain_env ''zilch'' twins = select_ds_id plain_env ''nope'' twins \<and>
   select_ds_id plain_env ''Twin'' twins = (Inl (Error NameError [Interp (Str ''display'')]), [])"
  by code_simp

text \<open>
  C9. Whenever \<open>select_ds_id\<close> succeeds, the frame it returns has the single index
  label 0, whatever label the row had in the table, so that each read
  \<open>single_df.loc[0, c]\<close> of \<open>load_data\<close> (and \<open>single_df.loc[0].to_dict()\<close>)
  finds the selected row.
\<close>

theorem select_resets_index:
  "length (index df) = length (rows df) \<Longrightarrow> select_ds_id env ds df = (Inr single_df, lg) \<Longrightarrow>
   index single_df = [0] \<and>
   (\<exists>r. filter (ds_mask ds (columns df)) (rows df) = [r] \<and> rows single_df = [r] \<and>
        columns single_df = columns df \<and>
        (\<forall>c \<in> set (columns df). loc single_df 0 c = Inr (cell (columns df) r c)) \<and>
        loc_row_dict single_df 0 = Inr (zip (columns df) r))"
proof -
  assume wf: "length (index df) = length (rows df)"
    and sel: "select_ds_id env ds df = (Inr single_df, lg)"
  let ?m = "filter (ds_mask ds (columns df)) (rows df)"
  from sel have cols: "''id'' \<in> set (columns df)" "''title'' \<in> set (columns df)"
    by (auto simp: select_ds_id_def split: if_splits)
  from sel have one: "length ?m = 1" and
    sdf: "single_df = \<lparr>columns = columns df, index = [0 ..< length ?m], rows = ?m\<rparr>"
    unfolding select_ds_id_cases[OF cols wf] by (auto simp: Let_def split: if_splits)
  from one obtain r where r: "?m = [r]"
    by (cases ?m) auto
  show ?thesis
    using r by (simp add: sdf loc_def loc_row_dict_def)
qed

theorem select_resets_index_witness:
  "length (index four_table) = length (rows four_table) \<and>
   select_ds_id plain_env ''b2'' four_table =
     (Inr \<lparr>columns = four_columns, index = [0], rows = [four_row ''Second'' ''b2'' ''Other'' ''dataset_0002'']\<rparr>, []) \<and>
   loc four_table 1 ''format'' = Inr (Str ''Other'') \<and>
   loc \<lparr>columns = four_columns, index = [0], rows = [four_row ''Second'' ''b2'' ''Other'' ''dataset_0002'']\<rparr> 0 ''format''
     = Inr (Str ''Other'')"
proof -
  let ?s = "\<lparr>columns = four_columns, index = [0], rows = [four_row ''Second'' ''b2'' ''Other'' ''dataset_0002'']\<rparr>"
  have wf: "length (index four_table) = length (rows four_table)" by (simp add: four_table_def)
  have sel: "select_ds_id plain_env ''b2'' four_table = (Inr ?s, [])" by code_simp
  have l1: "loc four_table 1 ''format'' = Inr (Str ''Other'')" by code_simp
  have c: "''format'' \<in> set (columns four_table)" by (simp add: four_table_def four_columns_def)
  have v: "cell (columns four_table) (four_row ''Second'' ''b2'' ''Other'' ''dataset_0002'') ''format'' = Str ''Other''"
    by code_simp
  from select_resets_index [OF wf sel] c v
  have "loc ?s 0 ''format'' = Inr (Str ''Other'')" by auto
  with wf sel l1 show ?thesis by simp
qed

text \<open>The object-level function computes what the value-level one does and only adds
  objects to the store.\<close>

lemma select_ds_id_obj_value:
  assumes "df < length h"
  shows "snd (fst (select_ds_id_obj env ds df h)) = snd (select_ds_id env ds (h ! df)) \<and>
         map_sum id (\<lambda>a. snd (select_ds_id_obj env ds df h) ! a) (fst (fst (select_ds_id_obj env ds df h)))
           = fst (select_ds_id env ds (h ! df)) \<and>
         take (length h) (snd (select_ds_id_obj env ds df h)) = h"
  using assms
  by (simp add: select_ds_id_obj_def select_ds_id_def alloc_def Let_def nth_append)

lemma select_ds_id_obj_one:
  assumes "df < length h"
    and "length (index (h ! df)) = length (rows (h ! df))"
    and "''id'' \<in> set (columns (h ! df))" and "''title'' \<in> set (columns (h ! df))"
    and "filter (ds_mask ds (columns (h ! df))) (rows (h ! df)) = [r]"
  shows "select_ds_id_obj env ds df h =
     ((Inr (length h + 2), []),
      h @ [df_filter (ds_mask ds (columns (h ! df))) (h ! df),
           \<lparr>columns = columns (h ! df), index = [0], rows = [r]\<rparr>,
           \<lparr>columns = columns (h ! df), index = [0], rows = [r]\<rparr>])"
proof -
  have "reset_index (df_filter (ds_mask ds (columns (h ! df))) (h ! df)) =
      \<lparr>columns = columns (h ! df), index = [0], rows = [r]\<rparr>"
    using assms(2,5) by (simp add: selected_frame)
  then show ?thesis
    using assms(1,3,4)
    by (simp add: select_ds_id_obj_def alloc_def Let_def nth_append)
qed

text \<open>
  C8. In a table where an id and a title each select exactly the row \<open>r\<close>, selecting
  by the id and selecting by the title both succeed and return frames with that same
  single row. Each returned frame is a new object: its address was not in use before
  the call, the table object is unchanged, and writing to the returned object changes
  neither the table nor the frame returned by the other call.
\<close>

theorem select_by_id_and_by_title:
  assumes "df < length h"
    and "length (index (h ! df)) = length (rows (h ! df))"
    and "''id'' \<in> set (columns (h ! df))" and "''title'' \<in> set (columns (h ! df))"
    and "filter (ds_mask i (columns (h ! df))) (rows (h ! df)) = [r]"
    and "filter (ds_mask t (columns (h ! df))) (rows (h ! df)) = [r]"
  shows "\<exists>a b h1 h2.
     select_ds_id_obj env i df h = ((Inr a, []), h1) \<and>
     select_ds_id_obj env t df h1 = ((Inr b, []), h2) \<and>
     h1 ! a = \<lparr>columns = columns (h ! df), index = [0], rows = [r]\<rparr> \<and>
     h2 ! b = h1 ! a \<and>
     length h \<le> a \<and> length h1 \<le> b \<and> a \<noteq> df \<and> b \<noteq> df \<and> b \<noteq> a \<and>
     h1 ! df = h ! df \<and> h2 ! df = h ! df \<and> h2 ! a = h1 ! a \<and>
     (\<forall>g. (h2[b := g]) ! df = h ! df \<and> (h2[b := g]) ! a = h1 ! a)"
proof -
  let ?F = "\<lambda>ds. df_filter (ds_mask ds (columns (h ! df))) (h ! df)"
  let ?R = "\<lparr>columns = columns (h ! df), index = [0], rows = [r]\<rparr>"
  let ?h1 = "h @ [?F i, ?R, ?R]"
  let ?h2 = "?h1 @ [?F t, ?R, ?R]"
  have first: "select_ds_id_obj env i df h = ((Inr (length h + 2), []), ?h1)"
    using assms(1-5) by (rule select_ds_id_obj_one)
  have same: "?h1 ! df = h ! df" using assms(1) by (simp add: nth_append)
  have "select_ds_id_obj env t df ?h1 =
      ((Inr (length ?h1 + 2), []),
       ?h1 @ [df_filter (ds_mask t (columns (?h1 ! df))) (?h1 ! df),
              \<lparr>columns = columns (?h1 ! df), index = [0], rows = [r]\<rparr>,
              \<lparr>columns = columns (?h1 ! df), index = [0], rows = [r]\<rparr>])"
  proof (rule select_ds_id_obj_one)
    show "df < length ?h1" using assms(1) by simp
    show "length (index (?h1 ! df)) = length (rows (?h1 ! df))" using assms(2) by (simp only: same)
    show "''id'' \<in> set (columns (?h1 ! df))" using assms(3) by (simp only: same)
    show "''title'' \<in> set (columns (?h1 ! df))" using assms(4) by (simp only: same)
    show "filter (ds_mask t (columns (?h1 ! df))) (rows (?h1 ! df)) = [r]"
      using assms(6) by (simp only: same)
  qed
  then have second: "select_ds_id_obj env t df ?h1 = ((Inr (length h + 5), []), ?h2)"
    unfolding same by simp
  show ?thesis
    apply (rule exI[of _ "length h + 2"])
    apply (rule exI[of _ "length h + 5"])
    apply (rule exI[of _ ?h1])
    apply (rule exI[of _ ?h2])
    using assms(1) first second
    by (simp add: nth_append)
qed

theorem select_by_id_and_by_title_witness:
  "0 < length [four_table] \<and>
   length (index ([four_table] ! 0)) = length (rows ([four_table] ! 0)) \<and>
   ''id'' \<in> set (columns ([four_table] ! 0)) \<and> ''title'' \<in> set (columns ([four_table] ! 0)) \<and>
   filter (ds_mask ''a1'' (columns ([four_table] ! 0))) (rows ([four_table] ! 0)) =
     [four_row ''Demo'' ''a1'' ''comma-separated text'' ''dataset_0001''] \<and>
   filter (ds_mask ''Demo'' (columns ([four_table] ! 0))) (rows ([four_table] ! 0)) =
     [four_row ''Demo'' ''a1'' ''comma-separated text'' ''dataset_0001''] \<and>
   (\<exists>a b h1 h2.
     select_ds_id_obj plain_env ''a1'' 0 [four_table] = ((Inr a, []), h1) \<and>
     select_ds_id_obj plain_env ''Demo'' 0 h1 = ((Inr b, []), h2) \<and>
     h1 ! a = \<lparr>columns = columns ([four_table] ! 0), index = [0],
               rows = [four_row ''Demo'' ''a1'' ''comma-separated text'' ''dataset_0001'']\<rparr> \<and>
     h2 ! b = h1 ! a \<and>
     length [four_table] \<le> a \<and> length h1 \<le> b \<and> a \<noteq> 0 \<and> b \<noteq> 0 \<and> b \<noteq> a \<and>
     h1 ! 0 = [four_table] ! 0 \<and> h2 ! 0 = [four_table] ! 0 \<and> h2 ! a = h1 ! a \<and>
     (\<forall>g. (h2[b := g]) ! 0 = [four_table] ! 0 \<and> (h2[b := g]) ! a = h1 ! a))"
proof -
  have h1: "0 < length [four_table]" by simp
  have h2: "length (index ([four_table] ! 0)) = length (rows ([four_table] ! 0))"
    by (simp add: four_table_def)
  have h3: "''id'' \<in> set (columns ([four_table] ! 0))"
    by (simp add: four_table_def four_columns_def)
  have h4: "''title'' \<in> set (columns ([four_table] ! 0))"
    by (simp add: four_table_def four_columns_def)
  have h5: "filter (ds_mask ''a1'' (columns ([four_table] ! 0))) (rows ([four_table] ! 0)) =
     [four_row ''Demo'' ''a1'' ''comma-separated text'' ''dataset_0001'']"
    by code_simp
  have h6: "filter (ds_mask ''Demo'' (columns ([four_table] ! 0))) (rows ([four_table] ! 0)) =
     [four_row ''Demo'' ''a1'' ''comma-separated text'' ''dataset_0001'']"
    by code_simp
  note C = select_by_id_and_by_title [OF h1 h2 h3 h4 h5 h6, of plain_env]
  from h1 h2 h3 h4 h5 h6 C show ?thesis
    by (intro conjI)
qed

subsection \<open>Loading\<close>

lemma dict_merge_map_of_rev: "map_of (dict_merge a b) = map_of a ++ map_of (rev b)"
  unfolding dict_merge_def
proof (induction b arbitrary: a)
  case Nil
  then show ?case by simp
next
  case (Cons kv b)
  obtain k v where kv: "kv = (k, v)" by (cases kv)
  have "map_of (fold (\<lambda>(k, v). AList.update k v) b (AList.update k v a)) =
        map_of (AList.update k v a) ++ map_of (rev b)"
    by (rule Cons.IH)
  then show ?case
    by (simp add: kv AList.update_conv')
qed

lemma map_of_rev_distinct: "distinct (map fst xs) \<Longrightarrow> map_of (rev xs) = map_of xs"
proof (induction xs)
  case Nil
  then show ?case by simp
next
  case (Cons kv xs)
  obtain k v where kv: "kv = (k, v)" by (cases kv)
  from Cons.prems have "map_of xs k = None"
    by (simp add: kv map_of_eq_None_iff)
  moreover from Cons have "map_of (rev xs) = map_of xs" by simp
  ultimately show ?case
    by (auto simp: kv map_add_def fun_eq_iff split: option.splits)
qed

text \<open>A dict has each key once; then the entries of the second operand win.\<close>

lemma dict_merge_map_of:
  "distinct (map fst b) \<Longrightarrow> map_of (dict_merge a b) = map_of a ++ map_of b"
  by (simp add: dict_merge_map_of_rev map_of_rev_distinct)

lemma dict_merge_empty: "dict_merge a [] = a"
  by (simp add: dict_merge_def)

lemma aggregate_index:
  "aggregate fs ps df0 = Inr df \<Longrightarrow> index df0 = [0 ..< length (rows df0)] \<Longrightarrow>
   index df = [0 ..< length (rows df)]"
proof (induction ps arbitrary: df0)
  case Nil
  then show ?case by simp
next
  case (Cons p ps)
  from Cons.prems(1) obtain d where rest: "aggregate fs ps (df_append df0 d) = Inr df"
    by (auto split: sum.splits)
  have "index (df_append df0 d) = [0 ..< length (rows (df_append df0 d))]"
    by (simp add: df_append_def Let_def)
  with Cons.IH[OF rest] show ?case by simp
qed

lemma select_ds_id_single:
  assumes "length (index df) = length (rows df)" and "select_ds_id env ds df = (Inr single_df, lg)"
  shows "\<exists>r. single_df = \<lparr>columns = columns df, index = [0], rows = [r]\<rparr>"
proof -
  let ?m = "filter (ds_mask ds (columns df)) (rows df)"
  from assms(2) have cols: "''id'' \<in> set (columns df)" "''title'' \<in> set (columns df)"
    by (auto simp: select_ds_id_def split: if_splits)
  from assms(2) have one: "length ?m = 1" and
    sdf: "single_df = \<lparr>columns = columns df, index = [0 ..< length ?m], rows = ?m\<rparr>"
    unfolding select_ds_id_cases[OF cols assms(1)] by (auto simp: Let_def split: if_splits)
  from one obtain r where "?m = [r]" by (cases ?m) auto
  with sdf show ?thesis by simp
qed

text \<open>The record that \<open>load_data\<close> goes on with is a frame of one row, labelled 0, with
  every priority column.\<close>

lemma resolve_shape:
  assumes "resolve env fs ds data_dir = (Inr single_df, lg)"
  shows "\<exists>cols r. single_df = \<lparr>columns = cols, index = [0], rows = [r]\<rparr> \<and> set sort_order \<subseteq> set cols"
proof -
  from assms obtain res lg1 lg2 where
    info0: "ds_info env fs None False True data_dir = (Inr res, lg1)" and
    pick0: "(case res of
         None \<Rightarrow> (Inl (Error TypeError []), [])
       | Some df \<Rightarrow>
           (case truthy ds of
              Some s \<Rightarrow> select_ds_id env s df
            | None \<Rightarrow>
                if length (rows df) = 1 then (Inr df, [])
                else (Inl (Error AssertionError
                        [Text ''There is more than one dataset available. Please select one by its ID or title.'']), [])))
       = (Inr single_df, lg2)"
    unfolding resolve_def then_do_eq_Inr by blast
  from pick0 obtain df where res: "res = Some df" by (cases res) auto
  from info0 res have info: "ds_info env fs None False True data_dir = (Inr (Some df), lg1)" by simp
  from pick0 res have
    pick: "(case truthy ds of
              Some s \<Rightarrow> select_ds_id env s df
            | None \<Rightarrow>
                if length (rows df) = 1 then (Inr df, [])
                else (Inl (Error AssertionError
                        [Text ''There is more than one dataset available. Please select one by its ID or title.'']), []))
           = (Inr single_df, lg2)"
    by simp
  from ds_info_table[OF info] obtain ds_paths lg0 ds_df cs where
    a: "aggregate fs ds_paths empty_frame = Inr ds_df" and
    s: "sort_colnames (columns ds_df) = Inr cs" and
    d: "df = select_columns ds_df cs"
    by blast
  have "index ds_df = [0 ..< length (rows ds_df)]"
    using a by (rule aggregate_index) (simp add: empty_frame_def)
  then have idx: "index df = [0 ..< length (rows df)]"
    by (simp add: d select_columns_def)
  have cols: "set sort_order \<subseteq> set (columns df)"
    using sort_colnames_Inr_subset[OF s] by (simp add: d select_columns_def)
  show ?thesis
  proof (cases "truthy ds")
    case None
    with pick have one: "length (rows df) = 1" and eq: "single_df = df"
      by (auto split: if_splits)
    from one obtain r where "rows df = [r]" by (cases "rows df") auto
    with idx have "df = \<lparr>columns = columns df, index = [0], rows = [r]\<rparr>" by simp
    with cols eq show ?thesis by metis
  next
    case (Some s)
    with pick have sel: "select_ds_id env s df = (Inr single_df, lg2)" by simp
    have "length (index df) = length (rows df)" using idx by (metis length_upt minus_nat.diff_0)
    from select_ds_id_single[OF this sel] cols show ?thesis by blast
  qed
qed

lemma loc_single:
  "c \<in> set cols \<Longrightarrow> loc \<lparr>columns = cols, index = [0], rows = [r]\<rparr> 0 c = Inr (cell cols r c)"
  by (simp add: loc_def)

lemma loc_single_Inr:
  "loc \<lparr>columns = cols, index = [0], rows = [r]\<rparr> 0 c = Inr v \<Longrightarrow> v = cell cols r c"
  by (simp add: loc_def split: if_splits)

lemma priority_columns:
  assumes "set sort_order \<subseteq> set cols"
  shows "''title'' \<in> set cols" "''id'' \<in> set cols" "''format'' \<in> set cols"
    "''path'' \<in> set cols" "''file'' \<in> set cols"
  using assms by (auto simp: sort_order_def)

lemma load_record_registered:
  assumes "set sort_order \<subseteq> set cols"
    and "cell cols r ''format'' = Str f" and "map_of readers f = Some reader"
    and "cell cols r ''path'' = PathV p" and "cell cols r ''file'' = Str file"
  shows "fst (load_record env readers \<lparr>columns = cols, index = [0], rows = [r]\<rparr>) =
     (case reader (joinpath p (parse_path file)) of
        Inl e \<Rightarrow> Inl e
      | Inr a \<Rightarrow> enrich (cell cols r ''id'') (zip cols r) a)"
  using assms(2-) priority_columns[OF assms(1)]
  by (simp add: load_record_def then_do_def lift_def emit_def loc_single find_reader_def
      payload_path_def to_path_def loc_row_dict_def split: sum.splits prod.splits)

lemma load_record_unregistered:
  assumes "set sort_order \<subseteq> set cols"
    and "cell cols r ''format'' = Str f" and "map_of readers f = None"
  shows "\<exists>msg. fst (load_record env readers \<lparr>columns = cols, index = [0], rows = [r]\<rparr>) =
       Inl (Error (if f = ''Other'' then NotImplementedError
                   else if f = ''Not set'' then ValueError else KeyError) msg) \<and>
       (f \<noteq> ''Other'' \<and> f \<noteq> ''Not set'' \<longrightarrow> InterpKeys (map fst readers) \<in> set msg)"
  using assms(2-) priority_columns[OF assms(1)]
  by (simp add: load_record_def then_do_def lift_def emit_def loc_single find_reader_def)

lemma load_data_resolved:
  "resolve env fs ds data_dir = (Inr single_df, lg) \<Longrightarrow>
   fst (fst (load_data env g fs ds data_dir additional_readers)) =
     fst (load_record env (dict_merge (DEFAULT_READERS g) additional_readers) single_df)"
  by (simp add: load_data_def Let_def then_do_Inr)

lemma load_data_globals: "snd (load_data env g fs ds data_dir additional_readers) = g"
  by (simp add: load_data_def Let_def)

text \<open>
  C1 (amended). For a record resolved by \<open>load_data\<close> whose format is a string that
  is not a key of the effective registry (the defaults with \<open>additional_readers\<close>
  merged over them): \<open>"Other"\<close> raises \<open>NotImplementedError\<close>, \<open>"Not set"\<close>
  raises \<open>ValueError\<close>, and any other string raises \<open>KeyError\<close> with the list of
  the registered format labels in its message.
\<close>

theorem load_unregistered_format:
  assumes "resolve env fs ds data_dir = (Inr single_df, lg)"
    and "loc single_df 0 ''format'' = Inr (Str f)"
    and "f \<notin> fst ` set (dict_merge (DEFAULT_READERS g) additional_readers)"
  shows "\<exists>msg. fst (fst (load_data env g fs ds data_dir additional_readers)) =
       Inl (Error (if f = ''Other'' then NotImplementedError
                   else if f = ''Not set'' then ValueError else KeyError) msg) \<and>
       (f \<noteq> ''Other'' \<and> f \<noteq> ''Not set'' \<longrightarrow>
          InterpKeys (map fst (dict_merge (DEFAULT_READERS g) additional_readers)) \<in> set msg)"
proof -
  from resolve_shape[OF assms(1)] obtain cols r where
    sdf: "single_df = \<lparr>columns = cols, index = [0], rows = [r]\<rparr>" and
    cols: "set sort_order \<subseteq> set cols"
    by blast
  from assms(2) have fmt: "cell cols r ''format'' = Str f"
    unfolding sdf by (auto dest: loc_single_Inr)
  from assms(3) have none: "map_of (dict_merge (DEFAULT_READERS g) additional_readers) f = None"
    by (simp add: map_of_eq_None_iff)
  show ?thesis
    unfolding load_data_resolved[OF assms(1)] sdf
    using cols fmt none by (rule load_record_unregistered)
qed

text \<open>
  C2. For a resolved record whose format is a key of the effective registry, with its
  \<open>path\<close>, a file name and a hashable id: \<open>load_data\<close> gives what that reader
  gives on \<open>path / file\<close>, an exception of the reader as it is and a body enriched;
  every body returned has the record's whole row, keyed by the id, under
  \<open>ds_metadata\<close> in \<open>uns\<close>, and a column \<open>fg_id\<close> in \<open>obs\<close> with one cell
  per row of the body, each the id.
\<close>

theorem load_registered_format:
  assumes "resolve env fs ds data_dir = (Inr single_df, lg)"
    and "loc single_df 0 ''format'' = Inr (Str f)"
    and "map_of (dict_merge (DEFAULT_READERS g) additional_readers) f = Some reader"
    and "loc single_df 0 ''path'' = Inr (PathV p)"
    and "loc single_df 0 ''file'' = Inr (Str file)"
    and "loc single_df 0 ''id'' = Inr ds_id" and "ds_id \<noteq> Compound"
    and "loc_row_dict single_df 0 = Inr metadata"
  shows "fst (fst (load_data env g fs ds data_dir additional_readers)) =
     (case reader (joinpath p (parse_path file)) of
        Inl e \<Rightarrow> Inl e
      | Inr a \<Rightarrow> Inr (a\<lparr>uns := AList.update ''ds_metadata'' (Metadata [(ds_id, metadata)]) (uns a),
                         obs := AList.update ''fg_id'' (replicate (n_obs a) ds_id) (obs a)\<rparr>)) \<and>
     (\<forall>body. fst (fst (load_data env g fs ds data_dir additional_readers)) = Inr body \<longrightarrow>
        map_of (uns body) ''ds_metadata'' = Some (Metadata [(ds_id, metadata)]) \<and>
        (\<exists>col. map_of (obs body) ''fg_id'' = Some col \<and> length col = n_obs body \<and>
               (\<forall>v \<in> set col. v = ds_id)))"
proof -
  from resolve_shape[OF assms(1)] obtain cols r where
    sdf: "single_df = \<lparr>columns = cols, index = [0], rows = [r]\<rparr>" and
    cols: "set sort_order \<subseteq> set cols"
    by blast
  from assms(2,4,5,6) have cells: "cell cols r ''format'' = Str f" "cell cols r ''path'' = PathV p"
    "cell cols r ''file'' = Str file" "cell cols r ''id'' = ds_id"
    unfolding sdf by (auto dest: loc_single_Inr)
  from assms(8) have meta: "metadata = zip cols r"
    unfolding sdf by (simp add: loc_row_dict_def)
  have run: "fst (fst (load_data env g fs ds data_dir additional_readers)) =
     (case reader (joinpath p (parse_path file)) of
        Inl e \<Rightarrow> Inl e
      | Inr a \<Rightarrow> enrich ds_id metadata a)"
    unfolding load_data_resolved[OF assms(1)] sdf meta cells(4)[symmetric]
    using cols cells(1) assms(3) cells(2,3) by (rule load_record_registered)
  show ?thesis
    unfolding run using assms(7)
    by (auto simp: enrich_def AList.update_conv' split: sum.splits)
qed

text \<open>
  C7. When \<open>additional_readers\<close> has an entry under the label of a default reader and
  the record has that format, the call runs the caller's reader; the module's
  dictionaries are the same after the call, and a call without \<open>additional_readers\<close>
  that follows runs the default reader.
\<close>

theorem extra_reader_for_one_call:
  assumes "resolve env fs ds data_dir = (Inr single_df, lg)"
    and "loc single_df 0 ''format'' = Inr (Str k)"
    and "map_of (DEFAULT_READERS g) k = Some default_reader"
    and "distinct (map fst additional_readers)"
    and "map_of additional_readers k = Some custom_reader"
    and "loc single_df 0 ''path'' = Inr (PathV p)"
    and "loc single_df 0 ''file'' = Inr (Str file)"
    and "loc single_df 0 ''id'' = Inr ds_id"
    and "loc_row_dict single_df 0 = Inr metadata"
  shows "fst (fst (load_data env g fs ds data_dir additional_readers)) =
       (case custom_reader (joinpath p (parse_path file)) of
          Inl e \<Rightarrow> Inl e | Inr a \<Rightarrow> enrich ds_id metadata a) \<and>
     snd (load_data env g fs ds data_dir additional_readers) = g \<and>
     fst (fst (load_data env (snd (load_data env g fs ds data_dir additional_readers)) fs ds data_dir [])) =
       (case default_reader (joinpath p (parse_path file)) of
          Inl e \<Rightarrow> Inl e | Inr a \<Rightarrow> enrich ds_id metadata a)"
proof -
  from resolve_shape[OF assms(1)] obtain cols r where
    sdf: "single_df = \<lparr>columns = cols, index = [0], rows = [r]\<rparr>" and
    cols: "set sort_order \<subseteq> set cols"
    by blast
  from assms(2,6,7,8) have cells: "cell cols r ''format'' = Str k" "cell cols r ''path'' = PathV p"
    "cell cols r ''file'' = Str file" "cell cols r ''id'' = ds_id"
    unfolding sdf by (auto dest: loc_single_Inr)
  from assms(9) have meta: "metadata = zip cols r"
    unfolding sdf by (simp add: loc_row_dict_def)
  have merged: "map_of (dict_merge (DEFAULT_READERS g) additional_readers) k = Some custom_reader"
    using assms(4,5) by (simp add: dict_merge_map_of)
  have plain: "map_of (dict_merge (DEFAULT_READERS g) []) k = Some default_reader"
    using assms(3) by (simp add: dict_merge_empty)
  have one: "fst (fst (load_data env g fs ds data_dir additional_readers)) =
       (case custom_reader (joinpath p (parse_path file)) of
          Inl e \<Rightarrow> Inl e | Inr a \<Rightarrow> enrich ds_id metadata a)"
    unfolding load_data_resolved[OF assms(1)] sdf meta cells(4)[symmetric]
    using cols cells(1) merged cells(2,3) by (rule load_record_registered)
  have two: "fst (fst (load_data env g fs ds data_dir [])) =
       (case default_reader (joinpath p (parse_path file)) of
          Inl e \<Rightarrow> Inl e | Inr a \<Rightarrow> enrich ds_id metadata a)"
    unfolding load_data_resolved[OF assms(1)] sdf meta cells(4)[symmetric]
    using cols cells(1) plain cells(2,3) by (rule load_record_registered)
  show ?thesis
    using one two by (simp add: load_data_globals)
qed

subsection \<open>Loading from the root of four datasets\<close>

lemma resolve_a1:
  "resolve plain_env fs_four (Some ''a1'') DATA_DIR =
     (Inr (single_row ''Demo'' ''a1'' ''comma-separated text'' ''dataset_0001''), [])"
  by code_simp

lemma resolve_b2:
  "resolve plain_env fs_four (Some ''b2'') DATA_DIR =
     (Inr (single_row ''Second'' ''b2'' ''Other'' ''dataset_0002''), [])"
  by code_simp

lemma resolve_c3:
  "resolve plain_env fs_four (Some ''c3'') DATA_DIR =
     (Inr (single_row ''Third'' ''c3'' ''Not set'' ''dataset_0003''), [])"
  by code_simp

lemma resolve_d4:
  "resolve plain_env fs_four (Some ''d4'') DATA_DIR =
     (Inr (single_row ''Fourth'' ''d4'' ''BadFormat'' ''dataset_0004''), [])"
  by code_simp

lemma single_row_cells:
  "loc (single_row t i f d) 0 ''format'' = Inr (Str f)"
  "loc (single_row t i f d) 0 ''id'' = Inr (Str i)"
  "loc (single_row t i f d) 0 ''file'' = Inr (Str ''data.csv'')"
  "loc (single_row t i f d) 0 ''path'' = Inr (PathV [''/'', ''fastgenomics'', ''data'', d])"
  "loc_row_dict (single_row t i f d) 0 = Inr (zip four_columns (four_row t i f d))"
  by (simp_all add: single_row_def loc_def loc_row_dict_def four_columns_def four_row_def cell_def)

lemma probe_registry:
  "map fst (dict_merge (DEFAULT_READERS probe_globals) []) =
     [''Loom'', ''Seurat Object'', ''AnnData'', ''10x (hdf5)'', ''10x (mtx)'',
      ''tab-separated text'', ''comma-separated text'']"
  "map_of (DEFAULT_READERS probe_globals) ''comma-separated text'' = Some (probe 7)"
  by (simp_all add: dict_merge_def probe_globals_def module_init_def registry_of_def probe_readers_def)

theorem load_unregistered_format_witness:
  "(\<exists>msg. fst (fst (load_data plain_env probe_globals fs_four (Some ''b2'') DATA_DIR [])) =
       Inl (Error NotImplementedError msg)) \<and>
   (\<exists>msg. fst (fst (load_data plain_env probe_globals fs_four (Some ''c3'') DATA_DIR [])) =
       Inl (Error ValueError msg)) \<and>
   (\<exists>msg. fst (fst (load_data plain_env probe_globals fs_four (Some ''d4'') DATA_DIR [])) =
       Inl (Error KeyError msg) \<and>
       InterpKeys [''Loom'', ''Seurat Object'', ''AnnData'', ''10x (hdf5)'', ''10x (mtx)'',
                   ''tab-separated text'', ''comma-separated text''] \<in> set msg)"
proof -
  have keys: "fst ` set (dict_merge (DEFAULT_READERS probe_globals) []) =
      set (map fst (dict_merge (DEFAULT_READERS probe_globals) []))" by simp
  have n1: "''Other'' \<notin> fst ` set (dict_merge (DEFAULT_READERS probe_globals) [])"
    unfolding keys probe_registry by simp
  have n2: "''Not set'' \<notin> fst ` set (dict_merge (DEFAULT_READERS probe_globals) [])"
    unfolding keys probe_registry by simp
  have n3: "''BadFormat'' \<notin> fst ` set (dict_merge (DEFAULT_READERS probe_globals) [])"
    unfolding keys probe_registry by simp
  note A = load_unregistered_format [OF resolve_b2 single_row_cells(1) n1]
  note B = load_unregistered_format [OF resolve_c3 single_row_cells(1) n2]
  note C = load_unregistered_format [OF resolve_d4 single_row_cells(1) n3]
  from A B C show ?thesis
    unfolding probe_registry by simp
qed

text \<open>
  C1 as stated fails: the registry is looked up first, so a record of format
  \<open>"Other"\<close> is loaded, not refused, when the caller registers a reader under that
  label.
\<close>

theorem load_other_format_counterexample:
  "resolve plain_env fs_four (Some ''b2'') DATA_DIR =
     (Inr (single_row ''Second'' ''b2'' ''Other'' ''dataset_0002''), []) \<and>
   loc (single_row ''Second'' ''b2'' ''Other'' ''dataset_0002'') 0 ''format'' = Inr (Str ''Other'') \<and>
   map_sum id n_vars
     (fst (fst (load_data plain_env probe_globals fs_four (Some ''b2'') DATA_DIR [(''Other'', probe 9)])))
     = Inr 9"
  by code_simp

theorem load_registered_format_witness:
  "fst (fst (load_data plain_env probe_globals fs_four (Some ''a1'') DATA_DIR [])) =
     Inr \<lparr>n_obs = 3, n_vars = 7,
          obs = [(''src'', replicate 3 (PathV [''/'', ''fastgenomics'', ''data'', ''dataset_0001'', ''data.csv''])),
                 (''fg_id'', [Str ''a1'', Str ''a1'', Str ''a1''])],
          uns = [(''ds_metadata'',
                  Metadata [(Str ''a1'', zip four_columns
                     (four_row ''Demo'' ''a1'' ''comma-separated text'' ''dataset_0001''))])]\<rparr>"
proof -
  have reg: "map_of (dict_merge (DEFAULT_READERS probe_globals) []) ''comma-separated text'' = Some (probe 7)"
    by (simp add: dict_merge_empty probe_registry)
  have hash: "Str ''a1'' \<noteq> Compound" by simp
  have payload: "joinpath [''/'', ''fastgenomics'', ''data'', ''dataset_0001''] (parse_path ''data.csv'') =
      [''/'', ''fastgenomics'', ''data'', ''dataset_0001'', ''data.csv'']"
    by code_simp
  note T = load_registered_format [OF resolve_a1 single_row_cells(1) reg single_row_cells(4)
      single_row_cells(3) single_row_cells(2) hash single_row_cells(5)]
  from T show ?thesis
    unfolding payload by (simp add: probe_def numeral_3_eq_3)
qed

theorem extra_reader_for_one_call_witness:
  "map_sum id n_vars
     (fst (fst (load_data plain_env probe_globals fs_four (Some ''a1'') DATA_DIR
                  [(''comma-separated text'', probe 9)]))) = Inr 9 \<and>
   snd (load_data plain_env probe_globals fs_four (Some ''a1'') DATA_DIR
          [(''comma-separated text'', probe 9)]) = probe_globals \<and>
   map_sum id n_vars
     (fst (fst (load_data plain_env
                  (snd (load_data plain_env probe_globals fs_four (Some ''a1'') DATA_DIR
                          [(''comma-separated text'', probe 9)]))
                  fs_four (Some ''a1'') DATA_DIR []))) = Inr 7"
proof -
  have d: "distinct (map fst [(''comma-separated text'', probe 9)])" by simp
  have c: "map_of [(''comma-separated text'', probe 9)] ''comma-separated text'' = Some (probe 9)"
    by simp
  note T = extra_reader_for_one_call [OF resolve_a1 single_row_cells(1) probe_registry(2) d c
      single_row_cells(4) single_row_cells(3) single_row_cells(2) single_row_cells(5)]
  from T have one: "map_sum id n_vars
     (fst (fst (load_data plain_env probe_globals fs_four (Some ''a1'') DATA_DIR
                  [(''comma-separated text'', probe 9)]))) = Inr 9"
    by (simp add: probe_def enrich_def)
  from T have same: "snd (load_data plain_env probe_globals fs_four (Some ''a1'') DATA_DIR
          [(''comma-separated text'', probe 9)]) = probe_globals"
    by (elim conjE)
  from T have two: "map_sum id n_vars
     (fst (fst (load_data plain_env
                  (snd (load_data plain_env probe_globals fs_four (Some ''a1'') DATA_DIR
                          [(''comma-separated text'', probe 9)]))
                  fs_four (Some ''a1'') DATA_DIR []))) = Inr 7"
    by (elim conjE) (simp only: probe_def enrich_def, simp)
  from one same two show ?thesis by (intro conjI)
qed

end
